theory Spec2Isabelle
  imports Main "HOL-Library.AList" "HOL-Library.Sublist"
begin

section \<open>Python values and exceptions\<close>

text \<open>
  The numbers that reach \<open>range\<close>: an \<open>int\<close>, or a \<open>float\<close>. Nothing in the
  modelled code reads the value of a float (only its type decides what \<open>range\<close> does),
  so the constructor carries none.
\<close>

datatype pynum = PyInt int | PyFloat

text \<open>
  The exceptions that the modelled code raises. \<open>OSError\<close> carries its errno.
  \<open>HttpError\<close> carries the status code and the reason; its first argument in the
  source is the request being handled, which the handler of the exception already
  holds.
\<close>

datatype exn =
    TypeError
  | ValueError
  | ZeroDivisionError
  | UnicodeError
  | IndexError
  | AttributeError
  | OSError nat
  | HttpError nat string

text \<open>Python's true division \<open>a / b\<close> on two ints: always a float.\<close>

definition truediv :: "int \<Rightarrow> int \<Rightarrow> exn + pynum" where
  "truediv a b = (if b = 0 then Inl ZeroDivisionError else Inr PyFloat)"

section \<open>retry\_until\<close>

text \<open>
  The observable steps of the polling loop: each call of \<open>action()\<close> with the result it
  returned, and each \<open>asyncio.sleep_ms(delay_ms)\<close>.
\<close>

datatype 'r event = Invoked 'r | Slept int

fun is_Invoked :: "'r event \<Rightarrow> bool" where
  "is_Invoked (Invoked _) = True"
| "is_Invoked (Slept _) = False"

fun is_Slept :: "'r event \<Rightarrow> bool" where
  "is_Slept (Slept _) = True"
| "is_Slept (Invoked _) = False"

text \<open>
  The body of \<open>for i in range(max_retries)\<close>, with the number of iterations left as the
  first numeric argument. The action runs on a state \<open>'s\<close> and returns its result with
  the new state.
\<close>

fun retry_loop ::
  "('r \<Rightarrow> bool) \<Rightarrow> ('s \<Rightarrow> 'r \<times> 's) \<Rightarrow> nat \<Rightarrow> int \<Rightarrow> 's \<Rightarrow> 'r event list
     \<Rightarrow> (bool \<times> 'r option) \<times> 's \<times> 'r event list" where
  "retry_loop predicate action 0 delay_ms s log = ((False, None), s, log)"
| "retry_loop predicate action (Suc i) delay_ms s log =
     (case action s of (result, s') \<Rightarrow>
        if predicate result then ((True, Some result), s', log @ [Invoked result])
        else retry_loop predicate action i delay_ms s'
               (log @ [Invoked result, Slept delay_ms]))"

text \<open>
  \<open>range(max_retries)\<close> raises \<open>TypeError\<close> on a float, is empty for an int below 1
  and has \<open>max_retries\<close> elements otherwise.
\<close>

definition retry_until ::
  "('r \<Rightarrow> bool) \<Rightarrow> ('s \<Rightarrow> 'r \<times> 's) \<Rightarrow> pynum \<Rightarrow> int \<Rightarrow> 's \<Rightarrow> 'r event list
     \<Rightarrow> (exn + bool \<times> 'r option) \<times> 's \<times> 'r event list" where
  "retry_until predicate action max_retries delay_ms s log =
     (case max_retries of
        PyFloat \<Rightarrow> (Inl TypeError, s, log)
      | PyInt n \<Rightarrow>
          (case retry_loop predicate action (nat n) delay_ms s log of
             (r, s', log') \<Rightarrow> (Inr r, s', log')))"

section \<open>ConnectionManager: the station radio\<close>

text \<open>
  The station interface \<open>wlan_sta\<close>: whether it is active, the connect requests issued,
  and the link as the environment drives it: \<open>sta_link k\<close> is what the \<open>k\<close>-th call of
  \<open>isconnected()\<close> answers.
\<close>

record station =
  sta_active :: bool
  sta_connects :: "(string \<times> string) list"
  sta_link :: "nat \<Rightarrow> bool"
  sta_polls :: nat

definition is_connected :: "station \<Rightarrow> bool \<times> station" where
  "is_connected st = (sta_link st (sta_polls st), st\<lparr>sta_polls := Suc (sta_polls st)\<rparr>)"

definition connected ::
  "station \<Rightarrow> bool event list \<Rightarrow> pynum \<Rightarrow> int \<Rightarrow> (exn + bool) \<times> station \<times> bool event list" where
  "connected st log max_retries delay_ms =
     (case retry_until (\<lambda>result. result = True) is_connected max_retries delay_ms st log of
        (Inl e, st', log') \<Rightarrow> (Inl e, st', log')
      | (Inr (success, _), st', log') \<Rightarrow> (Inr success, st', log'))"

definition connect ::
  "station \<Rightarrow> bool event list \<Rightarrow> string \<Rightarrow> string \<Rightarrow> int
     \<Rightarrow> (exn + bool) \<times> station \<times> bool event list" where
  "connect st log ssid password timeout_ms =
     (let delay_ms = 1000;
          st1 = st\<lparr>sta_active := True\<rparr>;
          st2 = st1\<lparr>sta_connects := sta_connects st1 @ [(ssid, password)]\<rparr>
      in case truediv timeout_ms delay_ms of
           Inl e \<Rightarrow> (Inl e, st2, log)
         | Inr max_retries \<Rightarrow>
             (case connected st2 log max_retries delay_ms of
                (Inl e, st3, log3) \<Rightarrow> (Inl e, st3, log3)
              | (Inr False, st3, log3) \<Rightarrow> (Inr False, st3\<lparr>sta_active := False\<rparr>, log3)
              | (Inr True, st3, log3) \<Rightarrow> (Inr True, st3, log3)))"

subsection \<open>Measuring a run of retry\_until\<close>

text \<open>The state after \<open>k\<close> calls of the action.\<close>

definition after_calls :: "('s \<Rightarrow> 'r \<times> 's) \<Rightarrow> nat \<Rightarrow> 's \<Rightarrow> 's" where
  "after_calls action k s = ((\<lambda>t. snd (action t)) ^^ k) s"

definition invocations :: "'r event list \<Rightarrow> nat" where
  "invocations log = length (filter is_Invoked log)"

definition delays :: "'r event list \<Rightarrow> nat" where
  "delays log = length (filter is_Slept log)"

text \<open>
  Sample collaborators: the predicate of \<open>connected\<close> (\<open>lambda result: result == True\<close>),
  an action that answers \<open>True\<close> at once and one that never does; both count their calls
  in the state.
\<close>

definition is_true :: "bool \<Rightarrow> bool" where
  "is_true result = (result = True)"

definition poll_up :: "nat \<Rightarrow> bool \<times> nat" where
  "poll_up calls = (True, Suc calls)"

definition poll_down :: "nat \<Rightarrow> bool \<times> nat" where
  "poll_down calls = (False, Suc calls)"

text \<open>A station radio that is off and whose link never comes up.\<close>

definition dead_station :: station where
  "dead_station = \<lparr>sta_active = False, sta_connects = [], sta_link = (\<lambda>k. False), sta_polls = 0\<rparr>"

section \<open>CredManager\<close>

text \<open>
  The Python values that reach the credential store: what \<open>json.loads\<close> returns for a
  request body, and strings. Numbers with a fraction or an exponent (floats) are not
  represented.
\<close>

datatype pyval =
    PNone
  | PBool bool
  | PInt int
  | PStr string
  | PList "pyval list"
  | PDict "(string \<times> pyval) list"

text \<open>Truth value testing (\<open>if x\<close>, \<open>not x\<close>).\<close>

fun truthy :: "pyval \<Rightarrow> bool" where
  "truthy PNone = False"
| "truthy (PBool b) = b"
| "truthy (PInt i) = (i \<noteq> 0)"
| "truthy (PStr s) = (s \<noteq> [])"
| "truthy (PList xs) = (xs \<noteq> [])"
| "truthy (PDict kvs) = (kvs \<noteq> [])"

text \<open>Lists and dicts are unhashable: using one as a dict key raises \<open>TypeError\<close>.\<close>

fun hashable :: "pyval \<Rightarrow> bool" where
  "hashable (PList _) = False"
| "hashable (PDict _) = False"
| "hashable _ = True"

text \<open>Equality of dict keys: \<open>True == 1\<close> and \<open>False == 0\<close>, structural otherwise.\<close>

fun py_eq :: "pyval \<Rightarrow> pyval \<Rightarrow> bool" where
  "py_eq (PBool b) (PInt i) = (i = (if b then 1 else 0))"
| "py_eq (PInt i) (PBool b) = (i = (if b then 1 else 0))"
| "py_eq x y = (x = y)"

text \<open>A dict with hashable keys, as its items in iteration order.\<close>

type_synonym pydict = "(pyval \<times> pyval) list"

fun dict_get :: "pydict \<Rightarrow> pyval \<Rightarrow> pyval option" where
  "dict_get [] k = None"
| "dict_get ((k', v') # d) k = (if py_eq k' k then Some v' else dict_get d k)"

fun dict_set :: "pydict \<Rightarrow> pyval \<Rightarrow> pyval \<Rightarrow> pydict" where
  "dict_set [] k v = [(k, v)]"
| "dict_set ((k', v') # d) k v =
     (if py_eq k' k then (k', v) # d else (k', v') # dict_set d k v)"

fun dict_del :: "pydict \<Rightarrow> pyval \<Rightarrow> pydict" where
  "dict_del [] k = []"
| "dict_del ((k', v') # d) k = (if py_eq k' k then dict_del d k else (k', v') # dict_del d k)"

text \<open>
  The CredManager object together with the files it writes. A file holds one JSON
  document; it is represented by the mapping that \<open>json.dump\<close> serialised into it.
\<close>

record cred_manager =
  storage :: string
  credentials :: pydict
  files :: "(string \<times> pydict) list"

text \<open>
  Calling an \<open>async def\<close> function runs nothing: it returns a coroutine object holding
  the body. The body runs when the coroutine is awaited.
\<close>

datatype ('s, 'a) coroutine = Coroutine "'s \<Rightarrow> 'a \<times> 's"

fun await :: "('s, 'a) coroutine \<Rightarrow> 's \<Rightarrow> 'a \<times> 's" where
  "await (Coroutine body) s = body s"

definition save :: "(cred_manager, unit) coroutine" where
  "save = Coroutine (\<lambda>cm. ((), cm\<lparr>files := AList.update (storage cm) (credentials cm) (files cm)\<rparr>))"

text \<open>
  \<open>add\<close>, \<open>remove\<close> and \<open>clear\<close> are plain \<open>def\<close>s that call \<open>self.save()\<close> as a
  statement: the coroutine object is created and dropped, never awaited.
\<close>

definition add :: "cred_manager \<Rightarrow> pyval \<Rightarrow> pyval \<Rightarrow> exn + cred_manager" where
  "add cm ssid password =
     (if \<not> hashable ssid then Inl TypeError
      else let cm1 = cm\<lparr>credentials := dict_set (credentials cm) ssid password\<rparr>;
               dropped = save
           in Inr cm1)"

definition remove :: "cred_manager \<Rightarrow> pyval \<Rightarrow> exn + cred_manager" where
  "remove cm ssid =
     (if \<not> hashable ssid then Inl TypeError
      else if dict_get (credentials cm) ssid \<noteq> None
      then let cm1 = cm\<lparr>credentials := dict_del (credentials cm) ssid\<rparr>;
               dropped = save
           in Inr cm1
      else Inr cm)"

definition clear :: "cred_manager \<Rightarrow> cred_manager" where
  "clear cm =
     (let cm1 = cm\<lparr>credentials := []\<rparr>;
          dropped = save
      in cm1)"

definition get :: "cred_manager \<Rightarrow> pyval \<Rightarrow> exn + (pyval \<times> pyval) option" where
  "get cm ssid =
     (if \<not> hashable ssid then Inl TypeError
      else let password = (case dict_get (credentials cm) ssid of None \<Rightarrow> PNone | Some v \<Rightarrow> v)
           in Inr (if truthy password then Some (ssid, password) else None))"

definition list_credentials :: "cred_manager \<Rightarrow> (pyval \<times> pyval) list" where
  "list_credentials cm = credentials cm"

text \<open>The store converges when the backing file holds the in-memory mapping.\<close>

definition converged :: "cred_manager \<Rightarrow> bool" where
  "converged cm = (map_of (files cm) (storage cm) = Some (credentials cm))"

text \<open>A freshly loaded store: empty mapping, backing file holding the empty mapping.\<close>

definition fresh_store :: cred_manager where
  "fresh_store = \<lparr>storage = ''wifi.dat'', credentials = [], files = [(''wifi.dat'', [])]\<rparr>"

text \<open>The store after an open network (empty secret) was added to a fresh store.\<close>

definition open_network :: cred_manager where
  "open_network = \<lparr>storage = ''wifi.dat'', credentials = [(PStr ''home'', PStr [])],
                    files = [(''wifi.dat'', [])]\<rparr>"

section \<open>ConnectionManager: scanning\<close>

subsection \<open>bytes.decode('utf-8')\<close>

text \<open>
  Strict UTF-8, as the codec defines it: \<open>seq_len\<close> is the length of the well-formed
  byte sequence at the head of its argument (0 if there is none), following the table
  of well-formed sequences (no overlong forms, no surrogates, nothing above U+10FFFF).
  Bytes are given by their values.
\<close>

definition cont :: "nat \<Rightarrow> bool" where
  "cont b = (128 \<le> b \<and> b \<le> 191)"

fun seq_len :: "nat list \<Rightarrow> nat" where
  "seq_len [] = 0"
| "seq_len (a # rest) =
     (if a < 128 then 1
      else if 194 \<le> a \<and> a \<le> 223 then
        (case rest of b # _ \<Rightarrow> if cont b then 2 else 0 | _ \<Rightarrow> 0)
      else if 224 \<le> a \<and> a \<le> 239 then
        (case rest of
           b # c # _ \<Rightarrow>
             if (if a = 224 then 160 \<le> b \<and> b \<le> 191
                 else if a = 237 then 128 \<le> b \<and> b \<le> 159
                 else cont b) \<and> cont c
             then 3 else 0
         | _ \<Rightarrow> 0)
      else if 240 \<le> a \<and> a \<le> 244 then
        (case rest of
           b # c # d # _ \<Rightarrow>
             if (if a = 240 then 144 \<le> b \<and> b \<le> 191
                 else if a = 244 then 128 \<le> b \<and> b \<le> 143
                 else cont b) \<and> cont c \<and> cont d
             then 4 else 0
         | _ \<Rightarrow> 0)
      else 0)"

text \<open>The code point that one well-formed sequence encodes.\<close>

fun code_point :: "nat list \<Rightarrow> nat" where
  "code_point [a] = a"
| "code_point [a, b] = (a - 192) * 64 + (b - 128)"
| "code_point [a, b, c] = (a - 224) * 4096 + (b - 128) * 64 + (c - 128)"
| "code_point [a, b, c, d] = (a - 240) * 262144 + (b - 128) * 4096 + (c - 128) * 64 + (d - 128)"
| "code_point _ = 0"

function utf8_chars :: "nat list \<Rightarrow> exn + nat list list" where
  "utf8_chars bs =
     (if bs = [] then Inr []
      else if seq_len bs = 0 then Inl UnicodeError
      else (case utf8_chars (drop (seq_len bs) bs) of
              Inl e \<Rightarrow> Inl e
            | Inr chars \<Rightarrow> Inr (take (seq_len bs) bs # chars)))"
  by pat_completeness auto
termination
  by (relation "measure length") auto

declare utf8_chars.simps [simp del]

text \<open>A Python \<open>str\<close> is its list of code points.\<close>

definition decode_utf8 :: "string \<Rightarrow> exn + nat list" where
  "decode_utf8 bs =
     (case utf8_chars (map of_char bs) of
        Inl e \<Rightarrow> Inl e
      | Inr chars \<Rightarrow> Inr (map code_point chars))"

subsection \<open>scan\_available\_networks\<close>

definition is_printable :: "nat list \<Rightarrow> bool" where
  "is_printable s = list_all (\<lambda>c. 31 < c \<and> c < 127) s"

text \<open>\<open>'{:02x}'.format(b)\<close> for a byte, and \<open>sep.join(parts)\<close>.\<close>

definition hex_digit :: "nat \<Rightarrow> char" where
  "hex_digit d = ''0123456789abcdef'' ! d"

definition hex2 :: "nat \<Rightarrow> string" where
  "hex2 b = [hex_digit (b div 16), hex_digit (b mod 16)]"

fun join :: "string \<Rightarrow> string list \<Rightarrow> string" where
  "join sep [] = []"
| "join sep [x] = x"
| "join sep (x # y # ys) = x @ sep @ join sep (y # ys)"

text \<open>
  One entry of \<open>wlan_sta.scan()\<close>: the tuple
  \<open>(ssid, bssid, channel, RSSI, security, hidden)\<close>, the first two as bytes.
\<close>

record network =
  net_ssid :: string
  net_bssid :: string
  net_channel :: int
  net_rssi :: int
  net_security :: int
  net_hidden :: bool

text \<open>
  \<open>sorted(xs, key=..., reverse=True)\<close> on integer keys: the stable sort with every
  comparison reversed.
\<close>

definition sorted_reverse :: "('a \<Rightarrow> int) \<Rightarrow> 'a list \<Rightarrow> 'a list" where
  "sorted_reverse key xs = sort_key (\<lambda>x. - key x) xs"

text \<open>
  The list comprehension over the sorted entries; the first name that does not decode
  raises out of it.
\<close>

fun scan_rows :: "network list \<Rightarrow> exn + (nat list \<times> string \<times> int) list" where
  "scan_rows [] = Inr []"
| "scan_rows (n # ns) =
     (case decode_utf8 (net_ssid n) of
        Inl e \<Rightarrow> Inl e
      | Inr name \<Rightarrow>
          if name \<noteq> [] \<and> is_printable name
          then (case scan_rows ns of
                  Inl e \<Rightarrow> Inl e
                | Inr rows \<Rightarrow>
                    Inr ((name, join '':'' (map (\<lambda>b. hex2 (of_char b)) (net_bssid n)), net_rssi n) # rows))
          else scan_rows ns)"

definition scan_available_networks ::
  "network list \<Rightarrow> exn + (nat list \<times> string \<times> int) list" where
  "scan_available_networks networks = scan_rows (sorted_reverse net_rssi networks)"

text \<open>
  Sample scans. The stations share the hardware address \<open>00:1a:2b:3c:4d:5e\<close>.
  \<open>cafe_utf8\<close> is named "Cafe" with an acute accent on the e, in UTF-8 (bytes
  43 61 66 c3 a9); \<open>cafe_latin1\<close> has the same name in Latin-1 (bytes 43 61 66 e9).
\<close>

definition sample_bssid :: string where
  "sample_bssid = [CHR 0x00, CHR 0x1a, CHR 0x2b, CHR 0x3c, CHR 0x4d, CHR 0x5e]"

definition unnamed_net :: network where
  "unnamed_net = \<lparr>net_ssid = [], net_bssid = sample_bssid, net_channel = 1, net_rssi = - 30,
                   net_security = 0, net_hidden = True\<rparr>"

definition cafe_utf8 :: network where
  "cafe_utf8 = \<lparr>net_ssid = [CHR ''C'', CHR ''a'', CHR ''f'', CHR 0xc3, CHR 0xa9],
                 net_bssid = sample_bssid, net_channel = 6, net_rssi = - 80, net_security = 3, net_hidden = False\<rparr>"

definition cafe_latin1 :: network where
  "cafe_latin1 = \<lparr>net_ssid = [CHR ''C'', CHR ''a'', CHR ''f'', CHR 0xe9],
                   net_bssid = sample_bssid, net_channel = 6, net_rssi = - 80, net_security = 3, net_hidden = False\<rparr>"

definition home_net :: network where
  "home_net = \<lparr>net_ssid = ''Home'', net_bssid = sample_bssid, net_channel = 11, net_rssi = - 40,
                net_security = 3, net_hidden = False\<rparr>"

section \<open>The HTTP engine\<close>

subsection \<open>Text helpers\<close>

definition crlf :: string where
  "crlf = [CHR 0x0D, CHR 0x0A]"

text \<open>\<open>bytes.decode('ascii')\<close>: the same characters, or an error on a byte above 127.\<close>

definition decode_ascii :: "string \<Rightarrow> exn + string" where
  "decode_ascii bs = (if list_all (\<lambda>b. (of_char b :: nat) < 128) bs then Inr bs else Inl UnicodeError)"

text \<open>ASCII whitespace, as \<open>str.split()\<close> and \<open>str.strip()\<close> see it.\<close>

definition is_space :: "char \<Rightarrow> bool" where
  "is_space c = ((of_char c :: nat) \<in> {9, 10, 11, 12, 13, 28, 29, 30, 31, 32})"

text \<open>\<open>s.split()\<close>: the maximal runs of non-whitespace; \<open>cur\<close> is the run being read.\<close>

fun split_run :: "string \<Rightarrow> string \<Rightarrow> string list" where
  "split_run [] cur = (if cur = [] then [] else [cur])"
| "split_run (c # cs) cur =
     (if is_space c then (if cur = [] then split_run cs [] else cur # split_run cs [])
      else split_run cs (cur @ [c]))"

definition split_ws :: "string \<Rightarrow> string list" where
  "split_ws s = split_run s []"

definition strip :: "string \<Rightarrow> string" where
  "strip s = rev (dropWhile is_space (rev (dropWhile is_space s)))"

text \<open>\<open>str(n)\<close> and \<open>"%s" % n\<close> for a status code.\<close>

function str_nat :: "nat \<Rightarrow> string" where
  "str_nat n = (if n < 10 then [''0123456789'' ! n]
                else str_nat (n div 10) @ [''0123456789'' ! (n mod 10)])"
  by pat_completeness auto
termination
  by (relation "measure id") auto

declare str_nat.simps [simp del]

text \<open>
  \<open>int(s)\<close> for a string: surrounding whitespace is ignored, then an optional sign and
  decimal digits, where single underscores may separate digits; anything else raises
  \<open>ValueError\<close>.
\<close>

definition is_digit :: "char \<Rightarrow> bool" where
  "is_digit c = (48 \<le> (of_char c :: nat) \<and> (of_char c :: nat) \<le> 57)"

definition digit_value :: "char \<Rightarrow> nat" where
  "digit_value c = of_char c - 48"

fun int_digits :: "string \<Rightarrow> nat \<Rightarrow> nat option" where
  "int_digits [] acc = Some acc"
| "int_digits [c] acc = (if is_digit c then Some (acc * 10 + digit_value c) else None)"
| "int_digits (c # d # ds) acc =
     (if is_digit c then int_digits (d # ds) (acc * 10 + digit_value c)
      else if c = CHR ''_'' \<and> is_digit d then int_digits ds (acc * 10 + digit_value d)
      else None)"

definition int_unsigned :: "string \<Rightarrow> nat option" where
  "int_unsigned s =
     (case s of [] \<Rightarrow> None
      | c # cs \<Rightarrow> if is_digit c then int_digits cs (digit_value c) else None)"

definition py_int :: "string \<Rightarrow> exn + int" where
  "py_int s =
     (let t = strip s in
      if t \<noteq> [] \<and> hd t = CHR ''-'' then
        (case int_unsigned (tl t) of None \<Rightarrow> Inl ValueError | Some n \<Rightarrow> Inr (- int n))
      else if t \<noteq> [] \<and> hd t = CHR ''+'' then
        (case int_unsigned (tl t) of None \<Rightarrow> Inl ValueError | Some n \<Rightarrow> Inr (int n))
      else
        (case int_unsigned t of None \<Rightarrow> Inl ValueError | Some n \<Rightarrow> Inr (int n)))"

subsection \<open>Library and files\<close>

text \<open>
  What the code takes from outside the repository: \<open>json.loads\<close>, \<open>json.dumps\<close>,
  \<open>str.format(**context)\<close>, and the files on the device. A file is seen through its
  reads: \<open>file_chunks name binary segment\<close> are the pieces that \<open>f.read(segment)\<close>
  returns after \<open>open(name, 'rb' if binary else 'r')\<close>, \<open>file_lines name\<close> the lines
  that \<open>for l in f\<close> yields, each together with the exception that \<open>open\<close> or a later
  read raised, if any.
\<close>

record pyenv =
  json_loads :: "string \<Rightarrow> exn + pyval"
  json_dumps :: "pyval \<Rightarrow> string"
  str_format :: "string \<Rightarrow> (string \<times> pyval) list \<Rightarrow> exn + string"
  file_chunks :: "string \<Rightarrow> bool \<Rightarrow> nat \<Rightarrow> string list \<times> exn option"
  file_lines :: "string \<Rightarrow> string list \<times> exn option"

definition ENOENT :: nat where
  "ENOENT = 2"

definition ECONNRESET :: nat where
  "ECONNRESET = 104"

subsection \<open>Request and connection\<close>

text \<open>
  The request holds the parsed fields. Its \<open>read\<close>, \<open>write\<close> and \<open>close\<close> are the
  reader's and writer's methods; they act on the connection: the bytes the peer sent
  that are still unread, the pieces written to the peer, and whether the writer was
  closed. The transport itself never fails.
\<close>

record request =
  req_url :: string
  req_method :: string
  req_headers :: "(string \<times> string) list"
  req_route :: string

record connection =
  conn_in :: string
  conn_out :: "string list"
  conn_closed :: bool

fun take_line :: "string \<Rightarrow> string \<times> string" where
  "take_line [] = ([], [])"
| "take_line (c # cs) =
     (if c = CHR 0x0A then ([c], cs)
      else (case take_line cs of (l, r) \<Rightarrow> (c # l, r)))"

definition readline :: "connection \<Rightarrow> string \<times> connection" where
  "readline c = (case take_line (conn_in c) of (l, r) \<Rightarrow> (l, c\<lparr>conn_in := r\<rparr>))"

text \<open>\<open>reader.read(n)\<close>: up to \<open>n\<close> bytes, everything that is left for a negative \<open>n\<close>.\<close>

definition reader_read :: "int \<Rightarrow> connection \<Rightarrow> string \<times> connection" where
  "reader_read n c =
     (if n < 0 then (conn_in c, c\<lparr>conn_in := []\<rparr>)
      else (take (nat n) (conn_in c), c\<lparr>conn_in := drop (nat n) (conn_in c)\<rparr>))"

definition awrite :: "string \<Rightarrow> connection \<Rightarrow> connection" where
  "awrite data c = c\<lparr>conn_out := conn_out c @ [data]\<rparr>"

definition aclose :: "connection \<Rightarrow> connection" where
  "aclose c = c\<lparr>conn_closed := True\<rparr>"

subsection \<open>Module-level helpers\<close>

text \<open>\<open>write\<close> (here \<open>write_to\<close>) encodes a \<open>str\<close> as ISO-8859-1, which keeps every byte of it.\<close>

definition write_to :: "string \<Rightarrow> connection \<Rightarrow> connection" where
  "write_to data c = awrite data c"

definition read :: "request \<Rightarrow> connection \<Rightarrow> (exn + string) \<times> connection" where
  "read request c =
     (case map_of (req_headers request) ''Content-Length'' of
        None \<Rightarrow> (Inr [], c)
      | Some v \<Rightarrow>
          (case py_int v of
             Inl e \<Rightarrow> (Inl e, c)
           | Inr len \<Rightarrow> (case reader_read len c of (content, c') \<Rightarrow> (Inr content, c'))))"

definition error :: "nat \<Rightarrow> string \<Rightarrow> connection \<Rightarrow> connection" where
  "error code reason c =
     awrite (''<h1>'' @ reason @ ''</h1>'')
       (awrite (''HTTP/1.1 '' @ str_nat code @ '' '' @ reason @ crlf @ crlf) c)"

definition json_read :: "pyenv \<Rightarrow> request \<Rightarrow> connection \<Rightarrow> (exn + pyval) \<times> connection" where
  "json_read E request c =
     (case read request c of
        (Inl e, c') \<Rightarrow> (Inl e, c')
      | (Inr content, c') \<Rightarrow>
          (case json_loads E content of
             Inr v \<Rightarrow> (Inr v, c')
           | Inl e \<Rightarrow> (json_loads E ''{}'', c')))"

definition json_write :: "string \<Rightarrow> connection \<Rightarrow> connection" where
  "json_write response_json c =
     awrite response_json
       (awrite (''Content-Type: application/json'' @ crlf @ crlf)
          (awrite (''HTTP/1.1 200 OK'' @ crlf) c))"

definition json_error :: "pyenv \<Rightarrow> nat \<Rightarrow> string \<Rightarrow> string \<Rightarrow> connection \<Rightarrow> connection" where
  "json_error E code reason message c =
     awrite (json_dumps E (PDict [(''error'', PStr message)]))
       (awrite (''Content-Type: application/json'' @ crlf @ crlf)
          (awrite (''HTTP/1.1 '' @ str_nat code @ '' '' @ reason @ crlf) c))"

text \<open>
  \<open>except OSError as e\<close> around a file transfer: \<open>ENOENT\<close> becomes the 404 protocol
  error, any other \<open>OSError\<close> is raised again, other exceptions are not caught.
\<close>

definition translate_oserror :: "exn \<Rightarrow> exn" where
  "translate_oserror e =
     (case e of
        OSError errno \<Rightarrow> if errno \<noteq> ENOENT then OSError errno else HttpError 404 ''File Not Found''
      | _ \<Rightarrow> e)"

definition send_file ::
  "pyenv \<Rightarrow> string \<Rightarrow> nat \<Rightarrow> bool \<Rightarrow> connection \<Rightarrow> (exn + unit) \<times> connection" where
  "send_file E filename segment binary c =
     (case file_chunks E filename binary segment of
        (pieces, failure) \<Rightarrow>
          let sent = takeWhile (\<lambda>data. data \<noteq> []) pieces;
              c1 = c\<lparr>conn_out := conn_out c @ sent\<rparr>
          in if length sent < length pieces then (Inr (), c1)
             else (case failure of
                     None \<Rightarrow> (Inr (), c1)
                   | Some e \<Rightarrow> (Inl (translate_oserror e), c1)))"

subsection \<open>Nanoweb\<close>

definition extract_headers :: "string list" where
  "extract_headers = [''Authorization'', ''Content-Length'', ''Content-Type'']"

definition assets_extensions :: "string list" where
  "assets_extensions = [''html'', ''css'', ''js'']"

definition STATIC_DIR :: string where
  "STATIC_DIR = ''./''"

definition INDEX_FILE :: string where
  "INDEX_FILE = STATIC_DIR @ ''index.html''"

text \<open>
  The four shapes of a handler: a dict (the template context for the request's own
  url), a str (the path of a file to send), a tuple of a file name and a context
  (given, or produced by a call), and a callable, which acts on the connection and on
  the application state \<open>'w\<close> and may return a handler to dispatch next.
\<close>

datatype context_src =
    Context "(string \<times> pyval) list"
  | ContextCall "unit \<Rightarrow> (string \<times> pyval) list"

datatype 'w handler =
    OfDict "(string \<times> pyval) list"
  | OfStr string
  | OfTuple string context_src
  | OfCall "request \<Rightarrow> connection \<times> 'w \<Rightarrow> (exn + 'w handler option) \<times> connection \<times> 'w"

fun handler_truthy :: "'w handler \<Rightarrow> bool" where
  "handler_truthy (OfDict context) = (context \<noteq> [])"
| "handler_truthy (OfStr filename) = (filename \<noteq> [])"
| "handler_truthy (OfTuple _ _) = True"
| "handler_truthy (OfCall _) = True"

text \<open>The lines of a template, each formatted with the context and written.\<close>

fun write_lines ::
  "pyenv \<Rightarrow> (string \<times> pyval) list \<Rightarrow> string list \<Rightarrow> connection \<Rightarrow> (exn + unit) \<times> connection" where
  "write_lines E context [] c = (Inr (), c)"
| "write_lines E context (l # ls) c =
     (case str_format E l context of
        Inl e \<Rightarrow> (Inl e, c)
      | Inr text \<Rightarrow> write_lines E context ls (write_to text c))"

definition render_template ::
  "pyenv \<Rightarrow> string \<Rightarrow> context_src \<Rightarrow> connection \<Rightarrow> (exn + unit) \<times> connection" where
  "render_template E filename ctx c =
     (let c1 = write_to (''HTTP/1.1 200 OK'' @ crlf @ crlf) c;
          context = (case ctx of Context d \<Rightarrow> d | ContextCall f \<Rightarrow> f ())
      in case file_lines E filename of
           (ls, failure) \<Rightarrow>
             (case write_lines E context ls c1 of
                (Inl e, c2) \<Rightarrow> (Inl (translate_oserror e), c2)
              | (Inr u, c2) \<Rightarrow>
                  (case failure of
                     None \<Rightarrow> (Inr (), c2)
                   | Some e \<Rightarrow> (Inl (translate_oserror e), c2))))"

text \<open>
  \<open>generate_output\<close>: the \<open>while True\<close> loop runs again for as long as a callable
  returns a truthy handler, so it need not terminate; \<open>None\<close> is the run that never
  returns.
\<close>

partial_function (option) generate_output ::
  "pyenv \<Rightarrow> request \<Rightarrow> 'w handler \<Rightarrow> connection \<times> 'w
     \<Rightarrow> ((exn + unit) \<times> connection \<times> 'w) option" where
  "generate_output E request handler cw =
     (case handler of
        OfDict context \<Rightarrow>
          (case render_template E (req_url request) (Context context) (fst cw) of
             (r, c') \<Rightarrow> Some (r, c', snd cw))
      | OfStr filename \<Rightarrow>
          (case send_file E filename 64 False (write_to (''HTTP/1.1 200 OK'' @ crlf @ crlf) (fst cw)) of
             (r, c') \<Rightarrow> Some (r, c', snd cw))
      | OfTuple filename ctx \<Rightarrow>
          (case render_template E filename ctx (fst cw) of
             (r, c') \<Rightarrow> Some (r, c', snd cw))
      | OfCall f \<Rightarrow>
          (case f request cw of
             (Inl e, cw') \<Rightarrow> Some (Inl e, cw')
           | (Inr None, cw') \<Rightarrow> Some (Inr (), cw')
           | (Inr (Some next_handler), cw') \<Rightarrow>
               if handler_truthy next_handler
               then generate_output E request next_handler cw'
               else Some (Inr (), cw')))"

declare generate_output.simps [code]

text \<open>
  The header loop of \<open>handle\<close>: a line with a colon is a header, kept if its name is one
  of \<open>extract_headers\<close>; any other line ends the loop.
\<close>

function read_headers :: "request \<Rightarrow> connection \<Rightarrow> (exn + request) \<times> connection" where
  "read_headers request c =
     (case decode_ascii (fst (readline c)) of
        Inl e \<Rightarrow> (Inl e, snd (readline c))
      | Inr text \<Rightarrow>
          if CHR '':'' \<in> set text
          then let header = takeWhile (\<lambda>ch. ch \<noteq> CHR '':'') text;
                   val = strip (tl (dropWhile (\<lambda>ch. ch \<noteq> CHR '':'') text))
               in read_headers
                    (if header \<in> set extract_headers
                     then request\<lparr>req_headers := AList.update header val (req_headers request)\<rparr>
                     else request)
                    (snd (readline c))
          else (Inr request, snd (readline c)))"
  by pat_completeness auto
termination
proof (relation "measure (\<lambda>(request, c). length (conn_in c))")
  show "wf (measure (\<lambda>(request, c). length (conn_in c)))" by simp
next
  fix request :: request and c :: connection and t x header
  assume dec: "decode_ascii (fst (readline c)) = Inr t"
    and colon: "CHR '':'' \<in> set t"
  have len: "length (fst (take_line s)) + length (snd (take_line s)) = length s" for s
    by (induction s) (auto split: prod.splits)
  have "t = fst (take_line (conn_in c))"
    using dec by (auto simp: decode_ascii_def readline_def split: if_splits prod.splits)
  then have "fst (take_line (conn_in c)) \<noteq> []"
    using colon by auto
  then have "length (snd (take_line (conn_in c))) < length (conn_in c)"
    using len [of "conn_in c"] by (cases "fst (take_line (conn_in c))") auto
  then show "((if header \<in> set extract_headers
                then request\<lparr>req_headers := AList.update header x (req_headers request)\<rparr>
                else request, snd (readline c)), request, c)
              \<in> measure (\<lambda>(request, c). length (conn_in c))"
    by (auto simp: readline_def split: prod.splits)
qed

declare read_headers.simps [simp del]

text \<open>
  The search through the route table when the url is not a key of it. \<open>route[-1]\<close>
  raises \<open>IndexError\<close> on an empty pattern.
\<close>

fun find_route :: "(string \<times> 'h) list \<Rightarrow> string \<Rightarrow> exn + (string \<times> 'h) option" where
  "find_route [] u = Inr None"
| "find_route ((route, handler) # rs) u =
     (if route = u then Inr (Some (route, handler))
      else if route = [] then Inl IndexError
      else if last route = CHR ''*'' \<and> prefix (butlast route) u then Inr (Some (route, handler))
      else find_route rs u)"

text \<open>Lines 450 to 482 of \<open>handle\<close>: from the url to the output.\<close>

definition route_request ::
  "pyenv \<Rightarrow> (string \<times> 'w handler) list \<Rightarrow> request \<Rightarrow> connection \<times> 'w
     \<Rightarrow> ((exn + unit) \<times> connection \<times> 'w) option" where
  "route_request E routes request cw =
     (case map_of routes (req_url request) of
        Some handler \<Rightarrow>
          generate_output E (request\<lparr>req_route := req_url request\<rparr>) handler cw
      | None \<Rightarrow>
          (case find_route routes (req_url request) of
             Inl e \<Rightarrow> Some (Inl e, cw)
           | Inr (Some (route, handler)) \<Rightarrow>
               generate_output E (request\<lparr>req_route := route\<rparr>) handler cw
           | Inr None \<Rightarrow>
               if req_url request \<in> {'''', ''/''}
               then (case send_file E INDEX_FILE 64 False (fst cw) of
                       (r, c') \<Rightarrow> Some (r, c', snd cw))
               else if list_ex (\<lambda>extension. suffix (''.'' @ extension) (req_url request))
                         assets_extensions
               then (case send_file E (STATIC_DIR @ ''/'' @ req_url request) 64 True (fst cw) of
                       (r, c') \<Rightarrow> Some (r, c', snd cw))
               else Some (Inl (HttpError 404 ''File Not Found''), cw)))"

text \<open>The inner \<open>try\<close> block of \<open>handle\<close>.\<close>

definition serve ::
  "pyenv \<Rightarrow> (string \<times> 'w handler) list \<Rightarrow> request \<Rightarrow> string \<Rightarrow> connection \<times> 'w
     \<Rightarrow> ((exn + unit) \<times> connection \<times> 'w) option" where
  "serve E routes request version cw =
     (if version \<notin> {''HTTP/1.0'', ''HTTP/1.1''}
      then Some (Inl (HttpError 505 ''Version Not Supported''), cw)
      else (case read_headers request (fst cw) of
              (Inl e, c1) \<Rightarrow> Some (Inl e, c1, snd cw)
            | (Inr request1, c1) \<Rightarrow> route_request E routes request1 (c1, snd cw)))"

text \<open>
  \<open>handle\<close>: the result is the exception that leaves the handler, if any, with the
  connection and the application state it leaves behind. \<open>callback_request\<close> is
  \<open>None\<close> and \<open>callback_error\<close> is \<open>error\<close>, as the class sets them.
\<close>

definition handle ::
  "pyenv \<Rightarrow> (string \<times> 'w handler) list \<Rightarrow> connection \<times> 'w
     \<Rightarrow> (exn option \<times> connection \<times> 'w) option" where
  "handle E routes cw =
     (case readline (fst cw) of
        (line, c1) \<Rightarrow>
          (case decode_ascii line of
             Inl e \<Rightarrow> Some (Some e, c1, snd cw)
           | Inr text \<Rightarrow>
               let items = split_ws text in
               if length items \<noteq> 3 then Some (None, c1, snd cw)
               else
                 let request = \<lparr>req_url = items ! 1, req_method = items ! 0,
                                req_headers = [], req_route = []\<rparr>;
                     version = items ! 2
                 in (case serve E routes request version (c1, snd cw) of
                       None \<Rightarrow> None
                     | Some (r, c2, w2) \<Rightarrow>
                         let (r1, c3) =
                               (case r of
                                  Inl (HttpError code message) \<Rightarrow> (Inr (), error code message c2)
                                | _ \<Rightarrow> (r, c2));
                             leaving =
                               (case r1 of
                                  Inr u \<Rightarrow> None
                                | Inl (OSError errno) \<Rightarrow>
                                    if errno \<noteq> ECONNRESET then Some (OSError errno) else None
                                | Inl e \<Rightarrow> Some e)
                         in Some (leaving, aclose c3, w2))))"

section \<open>The captive portal\<close>

text \<open>
  The state the route handlers act on: the credential store, the station radio with
  the log of its polling, what \<open>wlan_sta.scan()\<close> returns, and whether the access
  point is active.
\<close>

record portal =
  creds :: cred_manager
  wlan_sta :: station
  sta_log :: "bool event list"
  scan_result :: "network list"
  ap_active :: bool

text \<open>\<open>content.get(key)\<close>: only a dict has the method.\<close>

definition method_get :: "pyval \<Rightarrow> string \<Rightarrow> exn + pyval" where
  "method_get content key =
     (case content of
        PDict kvs \<Rightarrow> Inr (case map_of kvs key of None \<Rightarrow> PNone | Some v \<Rightarrow> v)
      | _ \<Rightarrow> Inl AttributeError)"

text \<open>
  Every handler runs its body in \<open>try\<close> and answers any exception with the JSON error
  500; it returns \<open>None\<close>.
\<close>

definition guarded ::
  "pyenv \<Rightarrow> (exn + unit) \<times> connection \<times> portal
     \<Rightarrow> (exn + portal handler option) \<times> connection \<times> portal" where
  "guarded E outcome =
     (case outcome of
        (Inl e, c, w) \<Rightarrow>
          (Inr None, json_error E 500 ''Internal Server Error'' ''Internal Server Error'' c, w)
      | (Inr u, c, w) \<Rightarrow> (Inr None, c, w))"

definition ping ::
  "request \<Rightarrow> connection \<times> portal \<Rightarrow> (exn + portal handler option) \<times> connection \<times> portal" where
  \<open>ping request cw = (Inr None, json_write ''{"status": "pong"}'' (fst cw), snd cw)\<close>

definition wifi_scan_body :: "pyenv \<Rightarrow> connection \<times> portal \<Rightarrow> (exn + unit) \<times> connection \<times> portal" where
  "wifi_scan_body E cw =
     (case scan_available_networks (scan_result (snd cw)) of
        Inl e \<Rightarrow> (Inl e, cw)
      | Inr rows \<Rightarrow>
          let networks = map (\<lambda>(name, mac, strength).
                PDict [(''ssid'', PStr (map char_of name)), (''mac'', PStr mac),
                       (''rssi'', PInt strength)]) rows
          in (Inr (), json_write (json_dumps E (PDict [(''networks'', PList networks)])) (fst cw),
              snd cw))"

definition wifi_scan ::
  "pyenv \<Rightarrow> request \<Rightarrow> connection \<times> portal
     \<Rightarrow> (exn + portal handler option) \<times> connection \<times> portal" where
  "wifi_scan E request cw = guarded E (wifi_scan_body E cw)"

definition wifi_add_body ::
  "pyenv \<Rightarrow> request \<Rightarrow> connection \<times> portal \<Rightarrow> (exn + unit) \<times> connection \<times> portal" where
  "wifi_add_body E request cw =
     (case json_read E request (fst cw) of
        (Inl e, c1) \<Rightarrow> (Inl e, c1, snd cw)
      | (Inr content, c1) \<Rightarrow>
          (case method_get content ''ssid'' of
             Inl e \<Rightarrow> (Inl e, c1, snd cw)
           | Inr ssid \<Rightarrow>
               (case method_get content ''password'' of
                  Inl e \<Rightarrow> (Inl e, c1, snd cw)
                | Inr password \<Rightarrow>
                    if \<not> truthy ssid \<or> \<not> truthy password
                    then (Inr (),
                          json_error E 400 ''Bad Request''
                            ''both ssid and password must be provided'' c1,
                          snd cw)
                    else
                      (case add (creds (snd cw)) ssid password of
                         Inl e \<Rightarrow> (Inl e, c1, snd cw)
                       | Inr cm1 \<Rightarrow>
                           let cm2 = snd (await save cm1)
                           in (Inr (),
                               json_write
                                 (json_dumps E (PDict [(''status'', PStr ''credentials saved'')]))
                                 c1,
                               (snd cw)\<lparr>creds := cm2\<rparr>)))))"

definition wifi_add ::
  "pyenv \<Rightarrow> request \<Rightarrow> connection \<times> portal
     \<Rightarrow> (exn + portal handler option) \<times> connection \<times> portal" where
  "wifi_add E request cw = guarded E (wifi_add_body E request cw)"

definition wifi_list ::
  "pyenv \<Rightarrow> request \<Rightarrow> connection \<times> portal
     \<Rightarrow> (exn + portal handler option) \<times> connection \<times> portal" where
  "wifi_list E request cw =
     (let credentials = map (\<lambda>(ssid, password). PDict [(''ssid'', ssid), (''password'', PStr ''****'')])
                          (list_credentials (creds (snd cw)))
      in guarded E
           (Inr (),
            json_write (json_dumps E (PDict [(''credentials'', PList credentials)])) (fst cw),
            snd cw))"

definition wifi_clear ::
  "pyenv \<Rightarrow> request \<Rightarrow> connection \<times> portal
     \<Rightarrow> (exn + portal handler option) \<times> connection \<times> portal" where
  "wifi_clear E request cw =
     (let cm1 = clear (creds (snd cw));
          cm2 = snd (await save cm1)
      in guarded E
           (Inr (),
            json_write (json_dumps E (PDict [(''status'', PStr ''credentials cleared'')])) (fst cw),
            (snd cw)\<lparr>creds := cm2\<rparr>))"

text \<open>
  \<open>auto_connect\<close> tries the stored credentials in order, each with the default
  \<open>timeout_ms\<close> of \<open>connect\<close>. The radio's \<open>connect\<close> takes strings; any other value
  makes it raise \<open>TypeError\<close>, the radio already activated.
\<close>

definition connect_stored ::
  "station \<Rightarrow> bool event list \<Rightarrow> pyval \<Rightarrow> pyval \<Rightarrow> (exn + bool) \<times> station \<times> bool event list" where
  "connect_stored st log ssid password =
     (case (ssid, password) of
        (PStr s, PStr p) \<Rightarrow> connect st log s p 10000
      | _ \<Rightarrow> (Inl TypeError, st\<lparr>sta_active := True\<rparr>, log))"

fun try_credentials ::
  "(pyval \<times> pyval) list \<Rightarrow> station \<Rightarrow> bool event list \<Rightarrow> (exn + bool) \<times> station \<times> bool event list" where
  "try_credentials [] st log = (Inr False, st, log)"
| "try_credentials ((ssid, password) # rest) st log =
     (case connect_stored st log ssid password of
        (Inl e, st', log') \<Rightarrow> (Inl e, st', log')
      | (Inr True, st', log') \<Rightarrow> (Inr True, st', log')
      | (Inr False, st', log') \<Rightarrow> try_credentials rest st' log')"

definition auto_connect ::
  "cred_manager \<Rightarrow> station \<Rightarrow> bool event list \<Rightarrow> (exn + bool) \<times> station \<times> bool event list" where
  "auto_connect cm st log =
     (if list_credentials cm = [] then (Inr False, st, log)
      else try_credentials (list_credentials cm) st log)"

definition wifi_connect_body ::
  "pyenv \<Rightarrow> connection \<times> portal \<Rightarrow> (exn + unit) \<times> connection \<times> portal" where
  "wifi_connect_body E cw =
     (case auto_connect (creds (snd cw)) (wlan_sta (snd cw)) (sta_log (snd cw)) of
        (Inl e, st', log') \<Rightarrow> (Inl e, fst cw, (snd cw)\<lparr>wlan_sta := st', sta_log := log'\<rparr>)
      | (Inr True, st', log') \<Rightarrow>
          (Inr (), json_write (json_dumps E (PDict [(''status'', PStr ''success'')])) (fst cw),
           (snd cw)\<lparr>wlan_sta := st', sta_log := log', ap_active := False\<rparr>)
      | (Inr False, st', log') \<Rightarrow>
          (Inr (), json_write (json_dumps E (PDict [(''status'', PStr ''failed'')])) (fst cw),
           (snd cw)\<lparr>wlan_sta := st', sta_log := log'\<rparr>))"

definition wifi_connect ::
  "pyenv \<Rightarrow> request \<Rightarrow> connection \<times> portal
     \<Rightarrow> (exn + portal handler option) \<times> connection \<times> portal" where
  "wifi_connect E request cw = guarded E (wifi_connect_body E cw)"

text \<open>The route table that \<open>start_access_portal\<close> installs.\<close>

definition portal_routes :: "pyenv \<Rightarrow> (string \<times> portal handler) list" where
  "portal_routes E =
     [(''/ping'', OfCall ping),
      (''/wifi/scan'', OfCall (wifi_scan E)),
      (''/wifi/add'', OfCall (wifi_add E)),
      (''/wifi/list'', OfCall (wifi_list E)),
      (''/wifi/clear'', OfCall (wifi_clear E)),
      (''/wifi/connect'', OfCall (wifi_connect E))]"

subsection \<open>Sample environment\<close>

text \<open>
  A serialiser in the layout of \<open>json.dumps\<close> (\<open>", "\<close> and \<open>": "\<close> as separators),
  for values whose strings need no escape beyond the quote and the backslash.
\<close>

fun dumps_str :: "string \<Rightarrow> string" where
  "dumps_str [] = []"
| "dumps_str (c # cs) =
     (if c = CHR 0x22 \<or> c = CHR 0x5C then CHR 0x5C # c # dumps_str cs else c # dumps_str cs)"

fun dumps :: "pyval \<Rightarrow> string"
  and dumps_items :: "pyval list \<Rightarrow> string"
  and dumps_members :: "(string \<times> pyval) list \<Rightarrow> string" where
  "dumps PNone = ''null''"
| "dumps (PBool b) = (if b then ''true'' else ''false'')"
| "dumps (PInt i) = (if i < 0 then ''-'' @ str_nat (nat (- i)) else str_nat (nat i))"
| "dumps (PStr s) = [CHR 0x22] @ dumps_str s @ [CHR 0x22]"
| "dumps (PList xs) = ''['' @ dumps_items xs @ '']''"
| "dumps (PDict kvs) = ''{'' @ dumps_members kvs @ ''}''"
| "dumps_items [] = []"
| "dumps_items [x] = dumps x"
| "dumps_items (x # y # ys) = dumps x @ '', '' @ dumps_items (y # ys)"
| "dumps_members [] = []"
| "dumps_members [(k, v)] = [CHR 0x22] @ dumps_str k @ [CHR 0x22] @ '': '' @ dumps v"
| "dumps_members ((k, v) # kv # kvs) =
     [CHR 0x22] @ dumps_str k @ [CHR 0x22] @ '': '' @ dumps v @ '', '' @ dumps_members (kv # kvs)"

text \<open>
  The request bodies of the examples and what \<open>json.loads\<close> makes of them; every other
  text counts as malformed here.
\<close>

definition body_ssid_only :: string where
  \<open>body_ssid_only = ''{"ssid":"home"}''\<close>

definition body_both :: string where
  \<open>body_both = ''{"ssid":"home","password":"secret"}''\<close>

definition loads_examples :: "string \<Rightarrow> exn + pyval" where
  "loads_examples s =
     (if s = ''{}'' then Inr (PDict [])
      else if s = body_ssid_only then Inr (PDict [(''ssid'', PStr ''home'')])
      else if s = body_both
      then Inr (PDict [(''ssid'', PStr ''home''), (''password'', PStr ''secret'')])
      else Inl ValueError)"

text \<open>A device without static files.\<close>

definition sample_env :: pyenv where
  "sample_env =
     \<lparr>json_loads = loads_examples,
      json_dumps = dumps,
      str_format = (\<lambda>l context. Inr l),
      file_chunks = (\<lambda>filename binary segment. ([], Some (OSError ENOENT))),
      file_lines = (\<lambda>filename. ([], Some (OSError ENOENT)))\<rparr>"

definition fresh_portal :: portal where
  "fresh_portal =
     \<lparr>creds = fresh_store, wlan_sta = dead_station, sta_log = [], scan_result = [],
      ap_active = True\<rparr>"

text \<open>A connection on which the peer sent \<open>data\<close> and then closed its side.\<close>

definition incoming :: "string \<Rightarrow> connection" where
  "incoming data = \<lparr>conn_in = data, conn_out = [], conn_closed = False\<rparr>"

subsection \<open>Routing, in the words of the specification\<close>

text \<open>
  A route whose pattern ends in the wildcard marker and whose prefix matches the start
  of the url.
\<close>

definition wildcard_match :: "string \<Rightarrow> string \<Rightarrow> bool" where
  "wildcard_match pattern u = (pattern \<noteq> [] \<and> last pattern = CHR ''*'' \<and> prefix (butlast pattern) u)"

definition has_asset_extension :: "string \<Rightarrow> bool" where
  "has_asset_extension u = (\<exists>extension \<in> set assets_extensions. suffix (''.'' @ extension) u)"

text \<open>
  A device with an index document and a script, serving them beside \<open>/ping\<close> and a
  wildcard route to a page.
\<close>

definition site_env :: pyenv where
  "site_env =
     \<lparr>json_loads = loads_examples,
      json_dumps = dumps,
      str_format = (\<lambda>l context. Inr l),
      file_chunks = (\<lambda>filename binary segment.
         if filename = ''./index.html'' \<and> \<not> binary then ([''<html>index</html>''], None)
         else if filename = ''.///app.js'' \<and> binary then ([''run()''], None)
         else if filename = ''./docs.html'' \<and> \<not> binary then ([''<html>docs</html>''], None)
         else ([], Some (OSError ENOENT))),
      file_lines = (\<lambda>filename. ([], Some (OSError ENOENT)))\<rparr>"

definition site_routes :: "(string \<times> portal handler) list" where
  "site_routes = [(''/ping'', OfCall ping), (''/docs/*'', OfStr ''./docs.html'')]"

definition get_request :: "string \<Rightarrow> request" where
  "get_request u = \<lparr>req_url = u, req_method = ''GET'', req_headers = [], req_route = []\<rparr>"

text \<open>
  A request to \<open>/wifi/add\<close> after its headers were read, announcing a body of the given
  length.
\<close>

definition post_request :: "string \<Rightarrow> request" where
  "post_request len =
     \<lparr>req_url = ''/wifi/add'', req_method = ''POST'',
      req_headers = [(''Content-Length'', len)], req_route = ''/wifi/add''\<rparr>"

text \<open>A request to \<open>/wifi/add\<close> without headers, and a body that is cut off.\<close>

definition bare_request :: request where
  "bare_request =
     \<lparr>req_url = ''/wifi/add'', req_method = ''POST'', req_headers = [],
      req_route = ''/wifi/add''\<rparr>"

definition body_malformed :: string where
  \<open>body_malformed = ''{"ssid":''\<close>

subsection \<open>Scanning, in the words of the specification\<close>

text \<open>
  A name that is kept: not empty, every byte in the printable range 32 to 126. The
  row returned for a kept entry: the name, the hardware address in colon-separated
  hex, the strength.
\<close>

definition printable_name :: "string \<Rightarrow> bool" where
  "printable_name name =
     (name \<noteq> [] \<and> list_all (\<lambda>b. 32 \<le> (of_char b :: nat) \<and> (of_char b :: nat) \<le> 126) name)"

definition scan_row :: "network \<Rightarrow> nat list \<times> string \<times> int" where
  "scan_row n =
     (map of_char (net_ssid n), join '':'' (map (\<lambda>b. hex2 (of_char b)) (net_bssid n)), net_rssi n)"

definition valid_utf8 :: "string \<Rightarrow> bool" where
  "valid_utf8 bs = (case decode_utf8 bs of Inl e \<Rightarrow> False | Inr name \<Rightarrow> True)"

definition kept :: "network list \<Rightarrow> network list" where
  "kept networks = filter (\<lambda>n. printable_name (net_ssid n)) networks"

text \<open>A second station named "Home", weaker than the first, and one as strong as it.\<close>

definition home_far :: network where
  "home_far = \<lparr>net_ssid = ''Home'', net_bssid = [CHR 0x00, CHR 0x1a, CHR 0x2b, CHR 0x3c, CHR 0x4d, CHR 0x5f],
                net_channel = 11, net_rssi = - 70, net_security = 3, net_hidden = False\<rparr>"

definition guest_net :: network where
  "guest_net = \<lparr>net_ssid = ''Guest'', net_bssid = sample_bssid, net_channel = 1, net_rssi = - 40,
                 net_security = 0, net_hidden = False\<rparr>"

subsection \<open>Responses, in the words of the specification\<close>

text \<open>
  The three responses the claims speak of, as the pieces written to the peer: a JSON
  error (status line with the code, JSON content type, the body \<open>{"error": message}\<close>),
  a JSON answer with status 200, and the HTML error of the engine (status line with the
  code and a blank line, then \<open><h1>reason</h1>\<close>).
\<close>

definition json_error_response :: "pyenv \<Rightarrow> nat \<Rightarrow> string \<Rightarrow> string \<Rightarrow> string list" where
  "json_error_response E code reason message =
     [''HTTP/1.1 '' @ str_nat code @ '' '' @ reason @ crlf,
      ''Content-Type: application/json'' @ crlf @ crlf,
      json_dumps E (PDict [(''error'', PStr message)])]"

definition json_response :: "string \<Rightarrow> string list" where
  "json_response body =
     [''HTTP/1.1 200 OK'' @ crlf, ''Content-Type: application/json'' @ crlf @ crlf, body]"

definition html_error_response :: "nat \<Rightarrow> string \<Rightarrow> string list" where
  "html_error_response code reason =
     [''HTTP/1.1 '' @ str_nat code @ '' '' @ reason @ crlf @ crlf, ''<h1>'' @ reason @ ''</h1>'']"

text \<open>
  What a route of the captive portal may answer: a JSON answer with status 200, the
  JSON error 400 of the validation, or the JSON error 500 of an internal error.
\<close>

definition portal_answer :: "pyenv \<Rightarrow> string list \<Rightarrow> bool" where
  "portal_answer E pieces =
     ((\<exists>body. pieces = json_response body)
      \<or> pieces = json_error_response E 400 ''Bad Request''
                   ''both ssid and password must be provided''
      \<or> pieces = json_error_response E 500 ''Internal Server Error'' ''Internal Server Error'')"

text \<open>
  A request that reaches routing: the request line has the three tokens \<open>m\<close>, \<open>u\<close> and
  a supported version, and the header loop ends without an exception, leaving the
  request \<open>request1\<close> and the connection \<open>c2\<close>.
\<close>

definition accepted :: "connection \<Rightarrow> string \<Rightarrow> string \<Rightarrow> request \<Rightarrow> connection \<Rightarrow> bool" where
  "accepted c m u request1 c2 =
     (case readline c of
        (line, c1) \<Rightarrow>
          decode_ascii line = Inr line
          \<and> (split_ws line = [m, u, ''HTTP/1.0''] \<or> split_ws line = [m, u, ''HTTP/1.1''])
          \<and> read_headers \<lparr>req_url = u, req_method = m, req_headers = [], req_route = []\<rparr> c1
              = (Inr request1, c2))"

text \<open>The handler the route table sends a url to: by exact match, else by the search.\<close>

definition dispatched :: "(string \<times> 'w handler) list \<Rightarrow> string \<Rightarrow> 'w handler \<Rightarrow> bool" where
  "dispatched routes u handler =
     (case map_of routes u of
        Some h \<Rightarrow> h = handler
      | None \<Rightarrow>
          (case find_route routes u of
             Inr (Some (route, h)) \<Rightarrow> h = handler
           | _ \<Rightarrow> False))"

text \<open>\<open>open\<close> fails with \<open>ENOENT\<close>: the file a transfer or a template needs is missing.\<close>

definition missing :: "pyenv \<Rightarrow> string \<Rightarrow> bool \<Rightarrow> bool" where
  "missing E filename binary = (file_chunks E filename binary 64 = ([], Some (OSError ENOENT)))"

definition template_missing :: "pyenv \<Rightarrow> string \<Rightarrow> bool" where
  "template_missing E filename = (file_lines E filename = ([], Some (OSError ENOENT)))"

text \<open>A file, template or dict handler for the url \<open>u\<close> whose file is missing.\<close>

fun handler_file_missing :: "pyenv \<Rightarrow> string \<Rightarrow> 'w handler \<Rightarrow> bool" where
  "handler_file_missing E u (OfDict context) = template_missing E u"
| "handler_file_missing E u (OfStr filename) = missing E filename False"
| "handler_file_missing E u (OfTuple filename ctx) = template_missing E filename"
| "handler_file_missing E u (OfCall f) = False"

text \<open>No route matches the url, and the file served in that case, if any, is missing.\<close>

definition unrouted_missing :: "pyenv \<Rightarrow> (string \<times> 'w handler) list \<Rightarrow> string \<Rightarrow> bool" where
  "unrouted_missing E routes u =
     (map_of routes u = None \<and> find_route routes u = Inr None
      \<and> (if u \<in> {'''', ''/''} then missing E INDEX_FILE False
          else if list_ex (\<lambda>extension. suffix (''.'' @ extension) u) assets_extensions
          then missing E (STATIC_DIR @ ''/'' @ u) True
          else True))"

text \<open>
  Bodies that are JSON but not an object with string fields, and a \<open>json.loads\<close> that
  reads them beside the bodies of the examples.
\<close>

definition body_array :: string where
  \<open>body_array = ''[1]''\<close>

definition body_list_ssid :: string where
  \<open>body_list_ssid = ''{"ssid":["a"],"password":"secret"}''\<close>

definition loads_more :: "string \<Rightarrow> exn + pyval" where
  "loads_more s =
     (if s = body_array then Inr (PList [PInt 1])
      else if s = body_list_ssid
      then Inr (PDict [(''ssid'', PList [PStr ''a'']), (''password'', PStr ''secret'')])
      else loads_examples s)"

definition wide_env :: pyenv where
  "wide_env = sample_env\<lparr>json_loads := loads_more\<rparr>"

text \<open>A route table with a page, a template and a dict handler.\<close>

definition page_routes :: "(string \<times> portal handler) list" where
  "page_routes =
     [(''/docs/*'', OfStr ''./docs.html''),
      (''/about'', OfTuple ''./about.html'' (Context [])),
      (''/status.html'', OfDict [(''state'', PStr ''up'')])]"

section \<open>Properties of retry\_until\<close>

lemma after_calls_Suc:
  "after_calls action (Suc k) s = after_calls action k (snd (action s))"
  by (simp only: after_calls_def funpow_Suc_right o_apply)

lemma retry_loop_never:
  "(\<And>k. k < i \<Longrightarrow> \<not> predicate (fst (action (after_calls action k s)))) \<Longrightarrow>
   \<exists>log'. retry_loop predicate action i delay_ms s log
            = ((False, None), after_calls action i s, log @ log')
        \<and> invocations log' = i \<and> delays log' = i"
proof (induction i arbitrary: s log)
  case 0
  show ?case by (simp add: after_calls_def invocations_def delays_def)
next
  case (Suc i)
  obtain r s' where a: "action s = (r, s')" by (cases "action s")
  have shift: "after_calls action k s' = after_calls action (Suc k) s" for k
    using a by (simp add: after_calls_Suc)
  have "\<not> predicate (fst (action (after_calls action 0 s)))"
    using Suc.prems [of 0] by simp
  then have nr: "\<not> predicate r"
    using a by (simp add: after_calls_def)
  have "\<exists>log'. retry_loop predicate action i delay_ms s' (log @ [Invoked r, Slept delay_ms])
            = ((False, None), after_calls action i s', (log @ [Invoked r, Slept delay_ms]) @ log')
        \<and> invocations log' = i \<and> delays log' = i"
  proof (rule Suc.IH)
    fix k assume "k < i"
    then show "\<not> predicate (fst (action (after_calls action k s')))"
      using Suc.prems [of "Suc k"] shift by simp
  qed
  then obtain log' where
    run: "retry_loop predicate action i delay_ms s' (log @ [Invoked r, Slept delay_ms])
            = ((False, None), after_calls action i s', (log @ [Invoked r, Slept delay_ms]) @ log')"
    and cnt: "invocations log' = i" "delays log' = i"
    by blast
  have "retry_loop predicate action (Suc i) delay_ms s log
          = ((False, None), after_calls action (Suc i) s,
             log @ ([Invoked r, Slept delay_ms] @ log'))"
    using a nr run shift by simp
  moreover have "invocations ([Invoked r, Slept delay_ms] @ log') = Suc i"
    using cnt by (simp add: invocations_def)
  moreover have "delays ([Invoked r, Slept delay_ms] @ log') = Suc i"
    using cnt by (simp add: delays_def)
  ultimately show ?case by blast
qed

text \<open>
  C3, as the code has it. For an integer \<open>max_retries\<close> of at least 1, a predicate that
  holds for the first result of the action makes \<open>retry_until\<close> return
  \<open>(True, result)\<close> after that single call, with no sleep. A predicate that no result
  of the action satisfies makes it call the action \<open>max(max_retries, 0)\<close> times, sleep
  after each call, and return \<open>(False, None)\<close>.
\<close>

theorem retry_until_outcomes:
  "(0 < n \<and> predicate (fst (action s)) \<longrightarrow>
      retry_until predicate action (PyInt n) delay_ms s log
        = (Inr (True, Some (fst (action s))), snd (action s),
           log @ [Invoked (fst (action s))]))
   \<and> ((\<forall>k. \<not> predicate (fst (action (after_calls action k s)))) \<longrightarrow>
      (\<exists>log'. retry_until predicate action (PyInt n) delay_ms s log
                = (Inr (False, None), after_calls action (nat n) s, log @ log')
            \<and> int (invocations log') = max n 0 \<and> delays log' = invocations log'))"
proof (intro conjI impI)
  assume h: "0 < n \<and> predicate (fst (action s))"
  then obtain i where i: "nat n = Suc i" by (cases "nat n") auto
  obtain r s' where a: "action s = (r, s')" by (cases "action s")
  show "retry_until predicate action (PyInt n) delay_ms s log
          = (Inr (True, Some (fst (action s))), snd (action s),
             log @ [Invoked (fst (action s))])"
    using h i a by (simp add: retry_until_def)
next
  assume "\<forall>k. \<not> predicate (fst (action (after_calls action k s)))"
  then have "\<exists>log'. retry_loop predicate action (nat n) delay_ms s log
            = ((False, None), after_calls action (nat n) s, log @ log')
        \<and> invocations log' = nat n \<and> delays log' = nat n"
    by (intro retry_loop_never) simp
  then obtain log' where
    run: "retry_loop predicate action (nat n) delay_ms s log
            = ((False, None), after_calls action (nat n) s, log @ log')"
    and cnt: "invocations log' = nat n" "delays log' = nat n"
    by blast
  have "retry_until predicate action (PyInt n) delay_ms s log
          = (Inr (False, None), after_calls action (nat n) s, log @ log')"
    using run by (simp add: retry_until_def)
  moreover have "int (invocations log') = max n 0"
    using cnt by simp
  moreover have "delays log' = invocations log'"
    using cnt by simp
  ultimately show "\<exists>log'. retry_until predicate action (PyInt n) delay_ms s log
                = (Inr (False, None), after_calls action (nat n) s, log @ log')
            \<and> int (invocations log') = max n 0 \<and> delays log' = invocations log'"
    by blast
qed

theorem retry_until_outcomes_witness:
  "retry_until is_true poll_up (PyInt 3) 500 0 [] = (Inr (True, Some True), 1, [Invoked True])
   \<and> (\<exists>log'. retry_until is_true poll_down (PyInt 3) 500 0 []
                = (Inr (False, None), after_calls poll_down 3 0, log')
            \<and> invocations log' = 3 \<and> delays log' = 3)"
proof -
  have up: "(0::int) < 3 \<and> is_true (fst (poll_up 0))"
    by (simp add: is_true_def poll_up_def)
  have down: "\<forall>k. \<not> is_true (fst (poll_down (after_calls poll_down k 0)))"
    by (simp add: is_true_def poll_down_def)
  have first: "retry_until is_true poll_up (PyInt 3) 500 0 []
                 = (Inr (True, Some True), 1, [Invoked True])"
    using up retry_until_outcomes [of 3 is_true poll_up 0 500 "[]"]
    by (simp add: poll_up_def)
  have never: "\<exists>log'. retry_until is_true poll_down (PyInt 3) 500 0 []
                = (Inr (False, None), after_calls poll_down 3 0, log')
            \<and> invocations log' = 3 \<and> delays log' = 3"
    using down retry_until_outcomes [of 3 is_true poll_down 0 500 "[]"]
    by auto
  show ?thesis using first never by blast
qed

text \<open>
  C3 as stated fails where \<open>max_retries\<close> is below 1. With \<open>max_retries = 0\<close> the
  predicate holds for what the action returns, yet the action is never called and the
  result is \<open>(False, None)\<close>; with \<open>max_retries = -1\<close> and a predicate that never
  holds, the action is called 0 times, not \<open>max_retries\<close> times.
\<close>

theorem retry_until_no_attempt:
  "is_true (fst (poll_up 0))
   \<and> retry_until is_true poll_up (PyInt 0) 500 0 [] = (Inr (False, None), 0, [])
   \<and> retry_until is_true poll_down (PyInt (- 1)) 500 0 [] = (Inr (False, None), 0, [])
   \<and> int (invocations ([] :: bool event list)) \<noteq> - 1"
  by (simp add: is_true_def poll_up_def retry_until_def invocations_def)

section \<open>Properties of connect\<close>

lemma connect_always_raises:
  "connect st log ssid password timeout_ms
     = (Inl TypeError,
        st\<lparr>sta_active := True, sta_connects := sta_connects st @ [(ssid, password)]\<rparr>, log)"
  by (simp add: connect_def truediv_def connected_def retry_until_def)

text \<open>
  C2 at \<open>connect("home", "secret", 3000)\<close> against a radio that never reports a link:
  \<open>timeout_ms / delay_ms\<close> is the float \<open>3.0\<close>, \<open>range\<close> refuses it, and the
  \<open>TypeError\<close> leaves \<open>connect\<close> after the radio was activated and the connect request
  issued: no poll was made, nothing is returned, and the station radio stays active.
\<close>

theorem connect_3000_raises:
  "connect dead_station [] ''home'' ''secret'' 3000
     = (Inl TypeError,
        \<lparr>sta_active = True, sta_connects = [(''home'', ''secret'')],
         sta_link = (\<lambda>k. False), sta_polls = 0\<rparr>, [])"
  by (simp add: connect_def truediv_def connected_def retry_until_def dead_station_def)

section \<open>Properties of CredManager\<close>

lemma py_eq_refl: "py_eq k k"
  by (cases k) simp_all

lemma dict_get_set_same: "dict_get (dict_set d k v) k = Some v"
  by (induction d) (auto simp: py_eq_refl)

text \<open>
  C1 at \<open>add("home", "secret")\<close> on a freshly loaded store: the mapping holds the new
  credential, the backing file still holds the empty mapping.
\<close>

theorem add_leaves_file_stale:
  "add fresh_store (PStr ''home'') (PStr ''secret'')
     = Inr \<lparr>storage = ''wifi.dat'',
            credentials = [(PStr ''home'', PStr ''secret'')],
            files = [(''wifi.dat'', [])]\<rparr>
   \<and> converged fresh_store
   \<and> \<not> converged \<lparr>storage = ''wifi.dat'',
            credentials = [(PStr ''home'', PStr ''secret'')],
            files = [(''wifi.dat'', [])]\<rparr>"
  by (simp add: add_def fresh_store_def converged_def)

lemma mutators_never_write:
  "add cm ssid password = Inr cm' \<Longrightarrow> files cm' = files cm"
  "remove cm ssid = Inr cm' \<Longrightarrow> files cm' = files cm"
  "files (clear cm) = files cm"
  by (auto simp: add_def remove_def clear_def Let_def split: if_splits)

lemma await_save_converges: "converged (snd (await save cm))"
  by (simp add: save_def converged_def update_Some_unfold)

lemma dict_get_del_same: "dict_get (dict_del d k) k = None"
  by (induction d) auto

text \<open>
  C6, as the code has it. For a hashable name (a string, in particular): \<open>get(name)\<close>
  right after \<open>add(name, secret)\<close> returns \<open>(name, secret)\<close> when the secret is truthy;
  \<open>get(name)\<close> after \<open>remove(name)\<close> returns nothing; and \<open>get(name)\<close> returns
  nothing when the name is absent or the stored secret is falsy.
\<close>

theorem get_after_add_remove:
  "hashable name \<Longrightarrow>
     (truthy secret \<longrightarrow>
        (\<exists>cm'. add cm name secret = Inr cm' \<and> get cm' name = Inr (Some (name, secret))))
   \<and> (\<exists>cm'. remove cm name = Inr cm' \<and> get cm' name = Inr None)
   \<and> (dict_get (credentials cm) name = None \<longrightarrow> get cm name = Inr None)
   \<and> (\<forall>v. dict_get (credentials cm) name = Some v \<and> \<not> truthy v \<longrightarrow> get cm name = Inr None)"
proof (intro conjI impI allI)
  assume h: "hashable name" and t: "truthy secret"
  show "\<exists>cm'. add cm name secret = Inr cm' \<and> get cm' name = Inr (Some (name, secret))"
    using h t by (simp add: add_def get_def dict_get_set_same)
next
  assume h: "hashable name"
  show "\<exists>cm'. remove cm name = Inr cm' \<and> get cm' name = Inr None"
  proof (cases "dict_get (credentials cm) name")
    case None
    then show ?thesis using h by (simp add: remove_def get_def)
  next
    case (Some v)
    then show ?thesis using h by (simp add: remove_def get_def dict_get_del_same)
  qed
next
  assume "hashable name" and "dict_get (credentials cm) name = None"
  then show "get cm name = Inr None" by (simp add: get_def)
next
  fix v
  assume "hashable name" and "dict_get (credentials cm) name = Some v \<and> \<not> truthy v"
  then show "get cm name = Inr None" by (simp add: get_def)
qed

theorem get_after_add_remove_witness:
  "(\<exists>cm'. add fresh_store (PStr ''home'') (PStr ''secret'') = Inr cm'
         \<and> get cm' (PStr ''home'') = Inr (Some (PStr ''home'', PStr ''secret'')))
   \<and> (\<exists>cm'. remove fresh_store (PStr ''home'') = Inr cm' \<and> get cm' (PStr ''home'') = Inr None)
   \<and> get fresh_store (PStr ''home'') = Inr None
   \<and> get open_network (PStr ''home'') = Inr None"
proof -
  have h: "hashable (PStr ''home'')" by simp
  have t: "truthy (PStr ''secret'')" by simp
  have absent: "dict_get (credentials fresh_store) (PStr ''home'') = None"
    by (simp add: fresh_store_def)
  have falsy: "dict_get (credentials open_network) (PStr ''home'') = Some (PStr [])
                 \<and> \<not> truthy (PStr [])"
    by (simp add: open_network_def)
  show ?thesis
    using t absent get_after_add_remove [OF h, of "PStr ''secret''" fresh_store]
      falsy get_after_add_remove [OF h, of "PStr ''secret''" open_network]
    by blast
qed

text \<open>
  C6 as stated fails for a falsy secret: after \<open>add("home", "")\<close> the name is stored
  with the empty secret, and \<open>get("home")\<close> returns nothing, not \<open>("home", "")\<close>.
\<close>

theorem get_after_add_empty_secret:
  "add fresh_store (PStr ''home'') (PStr []) = Inr open_network
   \<and> get open_network (PStr ''home'') = Inr None"
  by (simp add: add_def get_def fresh_store_def open_network_def)

section \<open>Properties of scan\_available\_networks\<close>

lemma scan_sample_utf8:
  "scan_available_networks [unnamed_net, cafe_utf8, home_net]
     = Inr [(map of_char ''Home'', ''00:1a:2b:3c:4d:5e'', - 40)]"
  by (simp add: scan_available_networks_def sorted_reverse_def unnamed_net_def cafe_utf8_def
      home_net_def decode_utf8_def is_printable_def cont_def sample_bssid_def hex2_def
      hex_digit_def utf8_chars.simps)

lemma seq_len_multibyte:
  "1 < seq_len bs \<Longrightarrow> 127 \<le> code_point (take (seq_len bs) bs)"
proof (cases bs)
  case Nil
  assume "1 < seq_len bs"
  then show ?thesis using Nil by simp
next
  case (Cons a rest)
  assume long: "1 < seq_len bs"
  consider (two) "194 \<le> a" "a \<le> 223" | (three) "224 \<le> a" "a \<le> 239"
    | (four) "240 \<le> a" "a \<le> 244"
    using long Cons by (auto split: if_splits)
  then show ?thesis
  proof cases
    case two
    then show ?thesis
      using long Cons by (auto simp: cont_def split: list.splits if_splits)
  next
    case three
    then show ?thesis
      using long Cons by (auto simp: cont_def split: list.splits if_splits)
  next
    case four
    then show ?thesis
      using long Cons by (auto simp: cont_def split: list.splits if_splits)
  qed
qed

lemma seq_len_single:
  "seq_len bs = 1 \<Longrightarrow> \<exists>a rest. bs = a # rest \<and> a < 128"
  by (cases bs) (auto split: list.splits if_splits)

lemma utf8_chars_ascii:
  "list_all (\<lambda>b. b < 128) bs \<Longrightarrow> utf8_chars bs = Inr (map (\<lambda>b. [b]) bs)"
proof (induction bs)
  case Nil
  show ?case by (simp add: utf8_chars.simps)
next
  case (Cons a rest)
  then have "utf8_chars rest = Inr (map (\<lambda>b. [b]) rest)" and "a < 128"
    by simp_all
  then show ?case
    by (subst utf8_chars.simps) simp
qed

lemma utf8_chars_printable:
  "utf8_chars bs = Inr chars \<Longrightarrow> list_all (\<lambda>c. 31 < c \<and> c < 127) (map code_point chars) \<Longrightarrow>
   map code_point chars = bs"
proof (induction bs arbitrary: chars rule: utf8_chars.induct)
  case (1 bs)
  show ?case
  proof (cases "bs = []")
    case True
    then show ?thesis using "1.prems" by (simp add: utf8_chars.simps)
  next
    case False
    have k: "seq_len bs \<noteq> 0"
      using "1.prems"(1) False by (subst (asm) utf8_chars.simps) (auto split: if_splits)
    obtain cs where cs: "utf8_chars (drop (seq_len bs) bs) = Inr cs"
      and chars: "chars = take (seq_len bs) bs # cs"
      using "1.prems"(1) False k
      by (subst (asm) utf8_chars.simps) (auto split: sum.splits)
    have head: "code_point (take (seq_len bs) bs) < 127"
      and tail: "list_all (\<lambda>c. 31 < c \<and> c < 127) (map code_point cs)"
      using "1.prems"(2) chars by simp_all
    have "\<not> 1 < seq_len bs"
      using head seq_len_multibyte [of bs] by auto
    then have one: "seq_len bs = 1"
      using k by simp
    then obtain a rest where bs: "bs = a # rest"
      using seq_len_single by blast
    have "map code_point cs = drop (seq_len bs) bs"
      using "1.IH" [OF False k cs tail] .
    then show ?thesis
      using chars one bs by simp
  qed
qed

lemma utf8_chars_empty:
  "utf8_chars bs = Inr [] \<Longrightarrow> bs = []"
  by (subst (asm) utf8_chars.simps) (auto split: if_splits sum.splits)

lemma decode_printable:
  assumes "valid_utf8 bs"
  shows "(case decode_utf8 bs of Inl e \<Rightarrow> False | Inr name \<Rightarrow> name \<noteq> [] \<and> is_printable name)
           = printable_name bs"
    and "printable_name bs \<Longrightarrow> decode_utf8 bs = Inr (map of_char bs)"
proof -
  show ok: "decode_utf8 bs = Inr (map of_char bs)" if p: "printable_name bs"
  proof -
    have "list_all (\<lambda>b. b < 128) (map of_char bs :: nat list)"
      using p by (auto simp: printable_name_def list_all_iff)
    then have "utf8_chars (map of_char bs) = Inr (map (\<lambda>b. [b]) (map of_char bs))"
      by (rule utf8_chars_ascii)
    then show ?thesis
      by (simp add: decode_utf8_def comp_def)
  qed
  obtain chars where chars: "utf8_chars (map of_char bs) = Inr chars"
    using assms by (auto simp: valid_utf8_def decode_utf8_def split: sum.splits)
  then have dec: "decode_utf8 bs = Inr (map code_point chars)"
    by (simp add: decode_utf8_def)
  show "(case decode_utf8 bs of Inl e \<Rightarrow> False | Inr name \<Rightarrow> name \<noteq> [] \<and> is_printable name)
           = printable_name bs"
  proof (cases "printable_name bs")
    case True
    then have "decode_utf8 bs = Inr (map of_char bs)" by (rule ok)
    moreover have "is_printable (map of_char bs)" and "bs \<noteq> []"
      using True by (auto simp: printable_name_def is_printable_def list_all_iff)
    ultimately show ?thesis using True by simp
  next
    case False
    have "\<not> (map code_point chars \<noteq> [] \<and> is_printable (map code_point chars))"
    proof
      assume h: "map code_point chars \<noteq> [] \<and> is_printable (map code_point chars)"
      then have eq: "map code_point chars = map of_char bs"
        using utf8_chars_printable [OF chars] by (simp add: is_printable_def)
      then have "list_all (\<lambda>c. 31 < c \<and> c < 127) (map of_char bs :: nat list)" and "bs \<noteq> []"
        using h by (auto simp: is_printable_def)
      then have "printable_name bs"
        by (auto simp: printable_name_def list_all_iff)
      then show False using False by simp
    qed
    then show ?thesis using dec False by simp
  qed
qed

lemma scan_rows_kept:
  "\<forall>n \<in> set ns. valid_utf8 (net_ssid n) \<Longrightarrow> scan_rows ns = Inr (map scan_row (kept ns))"
proof (induction ns)
  case Nil
  show ?case by (simp add: kept_def)
next
  case (Cons n ns)
  have v: "valid_utf8 (net_ssid n)" and rest: "scan_rows ns = Inr (map scan_row (kept ns))"
    using Cons by simp_all
  show ?case
  proof (cases "printable_name (net_ssid n)")
    case True
    have "decode_utf8 (net_ssid n) = Inr (map of_char (net_ssid n))"
      using decode_printable(2) [OF v True] .
    moreover have "map of_char (net_ssid n) \<noteq> ([] :: nat list)"
      and "is_printable (map of_char (net_ssid n))"
      using True by (auto simp: printable_name_def is_printable_def list_all_iff)
    ultimately show ?thesis
      using True rest by (simp add: kept_def scan_row_def)
  next
    case False
    obtain name where name: "decode_utf8 (net_ssid n) = Inr name"
      using v by (auto simp: valid_utf8_def split: sum.splits)
    have "\<not> (name \<noteq> [] \<and> is_printable name)"
      using decode_printable(1) [OF v] name False by simp
    then show ?thesis
      using name False rest by (auto simp: kept_def)
  qed
qed

lemma sorted_reverse_props:
  "sorted_wrt (\<lambda>a b. key b \<le> key a) (sorted_reverse key xs)"
  "filter (\<lambda>x. key x = k) (sorted_reverse key xs) = filter (\<lambda>x. key x = k) xs"
  "filter P (sorted_reverse key xs) = sorted_reverse key (filter P xs)"
proof -
  have "sorted (map (\<lambda>x. - key x) (sort_key (\<lambda>x. - key x) xs))"
    by (rule sorted_sort_key)
  then show "sorted_wrt (\<lambda>a b. key b \<le> key a) (sorted_reverse key xs)"
    by (simp add: sorted_reverse_def sorted_map)
  have "filter (\<lambda>x. - key x = - k) (sort_key (\<lambda>x. - key x) xs) = filter (\<lambda>x. - key x = - k) xs"
    by (rule sort_key_stable)
  then show "filter (\<lambda>x. key x = k) (sorted_reverse key xs) = filter (\<lambda>x. key x = k) xs"
    by (simp add: sorted_reverse_def)
  show "filter P (sorted_reverse key xs) = sorted_reverse key (filter P xs)"
    by (simp add: sorted_reverse_def filter_sort)
qed

text \<open>
  What the code does for a scan in which every name is valid UTF-8. The result is one
  row (name, colon-hex hardware address, strength) for each entry whose name is not
  empty and has every byte in the printable range 32 to 126, in the order of the stable
  sort by strength descending: strengths never increase along the result, and entries
  of equal strength keep their scan order.
\<close>

lemma scan_valid_names:
  "\<forall>n \<in> set networks. valid_utf8 (net_ssid n) \<Longrightarrow>
     scan_available_networks networks
       = Inr (map scan_row (sorted_reverse net_rssi (kept networks)))
   \<and> sorted_wrt (\<lambda>a b. net_rssi b \<le> net_rssi a) (sorted_reverse net_rssi (kept networks))
   \<and> filter (\<lambda>n. net_rssi n = k) (sorted_reverse net_rssi (kept networks))
       = filter (\<lambda>n. net_rssi n = k) (kept networks)"
proof (intro conjI)
  assume v: "\<forall>n \<in> set networks. valid_utf8 (net_ssid n)"
  have "\<forall>n \<in> set (sorted_reverse net_rssi networks). valid_utf8 (net_ssid n)"
    using v by (simp add: sorted_reverse_def)
  then have "scan_rows (sorted_reverse net_rssi networks)
               = Inr (map scan_row (kept (sorted_reverse net_rssi networks)))"
    by (rule scan_rows_kept)
  moreover have "kept (sorted_reverse net_rssi networks) = sorted_reverse net_rssi (kept networks)"
    by (simp add: kept_def sorted_reverse_props(3))
  ultimately show "scan_available_networks networks
       = Inr (map scan_row (sorted_reverse net_rssi (kept networks)))"
    by (simp add: scan_available_networks_def)
next
  show "sorted_wrt (\<lambda>a b. net_rssi b \<le> net_rssi a) (sorted_reverse net_rssi (kept networks))"
    by (rule sorted_reverse_props(1))
next
  show "filter (\<lambda>n. net_rssi n = k) (sorted_reverse net_rssi (kept networks))
       = filter (\<lambda>n. net_rssi n = k) (kept networks)"
    by (rule sorted_reverse_props(2))
qed

lemma sample_scan_valid:
  "\<forall>n \<in> set [unnamed_net, cafe_utf8, home_far, home_net, guest_net]. valid_utf8 (net_ssid n)"
  by (simp add: valid_utf8_def decode_utf8_def utf8_chars.simps cont_def unnamed_net_def
      cafe_utf8_def home_far_def home_net_def guest_net_def)

lemma scan_valid_names_sample:
  "scan_available_networks [unnamed_net, cafe_utf8, home_far, home_net, guest_net]
     = Inr [(map of_char ''Home'', ''00:1a:2b:3c:4d:5e'', - 40),
            (map of_char ''Guest'', ''00:1a:2b:3c:4d:5e'', - 40),
            (map of_char ''Home'', ''00:1a:2b:3c:4d:5f'', - 70)]"
proof -
  have k: "kept [unnamed_net, cafe_utf8, home_far, home_net, guest_net]
             = [home_far, home_net, guest_net]"
    by (simp add: kept_def printable_name_def unnamed_net_def cafe_utf8_def home_far_def
        home_net_def guest_net_def)
  have s: "sorted_reverse net_rssi [home_far, home_net, guest_net]
             = [home_net, guest_net, home_far]"
    by (simp add: sorted_reverse_def home_far_def home_net_def guest_net_def)
  have "scan_available_networks [unnamed_net, cafe_utf8, home_far, home_net, guest_net]
          = Inr (map scan_row
                   (sorted_reverse net_rssi
                      (kept [unnamed_net, cafe_utf8, home_far, home_net, guest_net])))"
    using scan_valid_names [OF sample_scan_valid, of 0] by (rule conjunct1)
  then show ?thesis
    unfolding k s
    by (simp add: scan_row_def home_far_def home_net_def guest_net_def sample_bssid_def
        hex2_def hex_digit_def)
qed

text \<open>
  C5 at the scan of the claim's example, an unnamed network, "Cafe" with an acute
  accent on the e (strength -80) and "Home" (strength -40), the accented name encoded
  in Latin-1 (bytes 43 61 66 e9). The claim gives the result as the one row for
  "Home". The code decodes every name as UTF-8 before \<open>is_printable\<close> looks at it: the
  byte \<open>0xe9\<close> does not decode, \<open>UnicodeError\<close> leaves the list comprehension, and the
  scan returns no list at all. The row for "Home", which the same scan without the
  accented neighbour does return, is lost.
\<close>

theorem scan_latin1_name_raises:
  "scan_available_networks [unnamed_net, cafe_latin1, home_net] = Inl UnicodeError
   \<and> scan_available_networks [unnamed_net, home_net]
       = Inr [(map of_char ''Home'', ''00:1a:2b:3c:4d:5e'', - 40)]"
  by (simp add: scan_available_networks_def sorted_reverse_def cafe_latin1_def unnamed_net_def
      home_net_def decode_utf8_def is_printable_def cont_def sample_bssid_def hex2_def
      hex_digit_def utf8_chars.simps)

section \<open>Properties of the HTTP engine\<close>

lemma read_headers_url:
  "read_headers request c = (Inr request1, c2) \<Longrightarrow> req_url request1 = req_url request"
proof (induction request c rule: read_headers.induct)
  case (1 request c)
  show ?case
  proof (cases "decode_ascii (fst (readline c))")
    case (Inl e)
    then show ?thesis using "1.prems" by (subst (asm) read_headers.simps) simp
  next
    case (Inr t)
    show ?thesis
    proof (cases "CHR '':'' \<in> set t")
      case False
      then show ?thesis using "1.prems" Inr by (subst (asm) read_headers.simps) simp
    next
      case True
      let ?header = "takeWhile (\<lambda>ch. ch \<noteq> CHR '':'') t"
      let ?val = "strip (tl (dropWhile (\<lambda>ch. ch \<noteq> CHR '':'') t))"
      let ?req = "if ?header \<in> set extract_headers
                  then request\<lparr>req_headers := AList.update ?header ?val (req_headers request)\<rparr>
                  else request"
      have "read_headers ?req (snd (readline c)) = (Inr request1, c2)"
        using "1.prems" Inr True by (subst (asm) read_headers.simps) (simp add: Let_def)
      then have "req_url request1 = req_url ?req"
        using "1.IH" [OF Inr True refl refl] by simp
      then show ?thesis by simp
    qed
  qed
qed

lemma str_nat_codes:
  "str_nat 400 = ''400''" "str_nat 404 = ''404''" "str_nat 500 = ''500''" "str_nat 505 = ''505''"
  by (simp_all add: str_nat.simps)

lemma handle_rejects_request_line:
  assumes "readline c = (line, c1)" "decode_ascii line = Inr line" "length (split_ws line) \<noteq> 3"
  shows "handle E routes (c, w) = Some (None, c1, w)"
    and "conn_out c1 = conn_out c" and "conn_closed c1 = conn_closed c"
proof -
  show "handle E routes (c, w) = Some (None, c1, w)"
    using assms by (simp add: handle_def)
  show "conn_out c1 = conn_out c" and "conn_closed c1 = conn_closed c"
    using assms(1) by (auto simp: readline_def split: prod.splits)
qed

text \<open>
  C4 at the request line \<open>GET /ping\<close> (two tokens) sent to the captive portal: the
  handler returns without writing, and the connection is still open when it has
  returned: the early \<open>return\<close> comes before the \<open>try\<close> whose \<open>finally\<close> closes the
  writer.
\<close>

theorem short_request_line_not_closed:
  "handle sample_env (portal_routes sample_env) (incoming (''GET /ping'' @ crlf), fresh_portal)
     = Some (None, \<lparr>conn_in = [], conn_out = [], conn_closed = False\<rparr>, fresh_portal)"
  by (simp add: handle_def incoming_def readline_def crlf_def decode_ascii_def split_ws_def
      is_space_def)

lemma handle_505:
  assumes "readline c = (line, c1)" "decode_ascii line = Inr line" "split_ws line = [m, u, v]"
    "v \<notin> {''HTTP/1.0'', ''HTTP/1.1''}"
  shows "handle E routes (c, w)
           = Some (None,
                   c1\<lparr>conn_out := conn_out c1 @
                         [''HTTP/1.1 505 Version Not Supported'' @ crlf @ crlf,
                          ''<h1>Version Not Supported</h1>''],
                      conn_closed := True\<rparr>, w)"
  using assms
  by (simp add: handle_def serve_def error_def awrite_def aclose_def str_nat_codes)

lemma readline_out:
  "readline c = (line, c1) \<Longrightarrow> conn_out c1 = conn_out c \<and> conn_closed c1 = conn_closed c"
  by (auto simp: readline_def split: prod.splits)

lemma read_headers_out:
  "read_headers request c = (r, c2) \<Longrightarrow> conn_out c2 = conn_out c \<and> conn_closed c2 = conn_closed c"
proof (induction request c rule: read_headers.induct)
  case (1 request c)
  obtain line c1 where rl: "readline c = (line, c1)"
    by (cases "readline c")
  have c1: "conn_out c1 = conn_out c \<and> conn_closed c1 = conn_closed c"
    using rl by (rule readline_out)
  show ?case
  proof (cases "decode_ascii (fst (readline c))")
    case (Inl e)
    then show ?thesis using "1.prems" rl c1 by (subst (asm) read_headers.simps) auto
  next
    case (Inr t)
    show ?thesis
    proof (cases "CHR '':'' \<in> set t")
      case False
      then show ?thesis using "1.prems" Inr rl c1 by (subst (asm) read_headers.simps) auto
    next
      case True
      let ?header = "takeWhile (\<lambda>ch. ch \<noteq> CHR '':'') t"
      let ?val = "strip (tl (dropWhile (\<lambda>ch. ch \<noteq> CHR '':'') t))"
      let ?req = "if ?header \<in> set extract_headers
                  then request\<lparr>req_headers := AList.update ?header ?val (req_headers request)\<rparr>
                  else request"
      have "read_headers ?req (snd (readline c)) = (r, c2)"
        using "1.prems" Inr True by (subst (asm) read_headers.simps) (simp add: Let_def)
      then have "conn_out c2 = conn_out (snd (readline c))
                 \<and> conn_closed c2 = conn_closed (snd (readline c))"
        using "1.IH" [OF Inr True refl refl] by simp
      then show ?thesis using rl c1 by simp
    qed
  qed
qed

lemma accepted_facts:
  assumes "accepted c m u request1 c2"
  shows "conn_out c2 = conn_out c" and "conn_closed c2 = conn_closed c" and "req_url request1 = u"
proof -
  obtain line c1 where rl: "readline c = (line, c1)"
    by (cases "readline c")
  have rh: "read_headers \<lparr>req_url = u, req_method = m, req_headers = [], req_route = []\<rparr> c1
              = (Inr request1, c2)"
    using assms rl by (simp add: accepted_def)
  show "conn_out c2 = conn_out c" and "conn_closed c2 = conn_closed c"
    using read_headers_out [OF rh] readline_out [OF rl] by simp_all
  show "req_url request1 = u"
    using read_headers_url [OF rh] by simp
qed

lemma handle_accepted_error:
  assumes "accepted c m u request1 c2"
    and "route_request E routes request1 (c2, w) = Some (Inl (HttpError code reason), c3, w3)"
  shows "handle E routes (c, w)
           = Some (None,
                   c3\<lparr>conn_out := conn_out c3 @ html_error_response code reason,
                      conn_closed := True\<rparr>, w3)"
proof -
  obtain line c1 where rl: "readline c = (line, c1)"
    by (cases "readline c")
  show ?thesis
    using assms rl
    by (auto simp: accepted_def handle_def serve_def error_def html_error_response_def
        awrite_def aclose_def)
qed

lemma handle_accepted_done:
  assumes "accepted c m u request1 c2"
    and "route_request E routes request1 (c2, w) = Some (Inr (), c3, w3)"
  shows "handle E routes (c, w) = Some (None, c3\<lparr>conn_closed := True\<rparr>, w3)"
proof -
  obtain line c1 where rl: "readline c = (line, c1)"
    by (cases "readline c")
  show ?thesis
    using assms rl
    by (auto simp: accepted_def handle_def serve_def aclose_def)
qed

lemma route_unrouted_missing:
  assumes "unrouted_missing E routes (req_url request)"
  shows "route_request E routes request (c, w)
           = Some (Inl (HttpError 404 ''File Not Found''), c, w)"
  using assms
  by (auto simp: unrouted_missing_def route_request_def missing_def send_file_def
      translate_oserror_def split: if_splits)

lemma generate_output_missing:
  assumes "handler_file_missing E (req_url request) handler"
  shows "generate_output E request handler (c, w)
           = Some (Inl (HttpError 404 ''File Not Found''),
                   c\<lparr>conn_out := conn_out c @ [''HTTP/1.1 200 OK'' @ crlf @ crlf]\<rparr>, w)"
proof (cases handler)
  case (OfDict d)
  then show ?thesis
    using assms
    by (simp add: generate_output.simps render_template_def template_missing_def write_to_def
        awrite_def translate_oserror_def)
next
  case (OfStr filename)
  then show ?thesis
    using assms
    by (simp add: generate_output.simps send_file_def missing_def write_to_def awrite_def
        translate_oserror_def)
next
  case (OfTuple filename ctx)
  then show ?thesis
    using assms
    by (simp add: generate_output.simps render_template_def template_missing_def write_to_def
        awrite_def translate_oserror_def)
next
  case (OfCall f)
  then show ?thesis using assms by simp
qed

lemma route_file_missing:
  assumes "dispatched routes (req_url request) handler"
    and "handler_file_missing E (req_url request) handler"
  shows "route_request E routes request (c, w)
           = Some (Inl (HttpError 404 ''File Not Found''),
                   c\<lparr>conn_out := conn_out c @ [''HTTP/1.1 200 OK'' @ crlf @ crlf]\<rparr>, w)"
proof (cases "map_of routes (req_url request)")
  case (Some h)
  then have h: "h = handler"
    using assms(1) by (simp add: dispatched_def)
  have "handler_file_missing E (req_url (request\<lparr>req_route := req_url request\<rparr>)) handler"
    using assms(2) by simp
  then show ?thesis
    using Some h by (simp add: route_request_def generate_output_missing)
next
  case None
  then obtain route where f: "find_route routes (req_url request) = Inr (Some (route, handler))"
    using assms(1) by (auto simp: dispatched_def split: sum.splits option.splits)
  have "handler_file_missing E (req_url (request\<lparr>req_route := route\<rparr>)) handler"
    using assms(2) by simp
  then show ?thesis
    using None f by (simp add: route_request_def generate_output_missing)
qed

lemma json_read_out:
  "json_read E request c = (r, c1) \<Longrightarrow> conn_out c1 = conn_out c \<and> conn_closed c1 = conn_closed c"
  by (auto simp: json_read_def read_def reader_read_def split: option.splits sum.splits
      prod.splits if_splits)

lemma json_write_answer:
  "conn_out (json_write body c) = conn_out c @ json_response body"
  "conn_closed (json_write body c) = conn_closed c"
  by (simp_all add: json_write_def json_response_def awrite_def)

lemma json_error_answer:
  "conn_out (json_error E code reason message c)
     = conn_out c @ json_error_response E code reason message"
  "conn_closed (json_error E code reason message c) = conn_closed c"
  by (simp_all add: json_error_def json_error_response_def awrite_def)

lemma portal_answer_cases:
  "portal_answer E (json_response body)"
  "portal_answer E (json_error_response E 400 ''Bad Request''
                      ''both ssid and password must be provided'')"
  "portal_answer E (json_error_response E 500 ''Internal Server Error''
                      ''Internal Server Error'')"
  by (auto simp: portal_answer_def)

lemma guarded_answers:
  assumes "case outcome of
             (Inl e, c1, w1) \<Rightarrow> conn_out c1 = conn_out c \<and> conn_closed c1 = conn_closed c
           | (Inr u, c1, w1) \<Rightarrow>
               conn_closed c1 = conn_closed c
               \<and> (\<exists>pieces. conn_out c1 = conn_out c @ pieces \<and> portal_answer E pieces)"
  shows "\<exists>c' w' pieces. guarded E outcome = (Inr None, c', w')
           \<and> conn_closed c' = conn_closed c
           \<and> conn_out c' = conn_out c @ pieces \<and> portal_answer E pieces"
proof (cases outcome)
  case (fields r c1 w1)
  show ?thesis
  proof (cases r)
    case (Inl e)
    then show ?thesis
      using assms fields
      by (simp add: guarded_def json_error_answer portal_answer_cases)
  next
    case (Inr u)
    then show ?thesis
      using assms fields by (auto simp: guarded_def)
  qed
qed

lemma ping_answers:
  "\<exists>c' w' pieces. ping request (c, w) = (Inr None, c', w')
     \<and> conn_closed c' = conn_closed c
     \<and> conn_out c' = conn_out c @ pieces \<and> portal_answer E pieces"
  by (simp add: ping_def json_write_answer portal_answer_cases)

lemma wifi_scan_answers:
  "\<exists>c' w' pieces. wifi_scan E request (c, w) = (Inr None, c', w')
     \<and> conn_closed c' = conn_closed c
     \<and> conn_out c' = conn_out c @ pieces \<and> portal_answer E pieces"
  unfolding wifi_scan_def
  by (rule guarded_answers)
     (auto simp: wifi_scan_body_def json_write_answer portal_answer_cases split: sum.splits)

lemma wifi_add_answers:
  "\<exists>c' w' pieces. wifi_add E request (c, w) = (Inr None, c', w')
     \<and> conn_closed c' = conn_closed c
     \<and> conn_out c' = conn_out c @ pieces \<and> portal_answer E pieces"
proof -
  obtain r c1 where jr: "json_read E request c = (r, c1)"
    by (cases "json_read E request c")
  have c1: "conn_out c1 = conn_out c \<and> conn_closed c1 = conn_closed c"
    using jr by (rule json_read_out)
  show ?thesis
    unfolding wifi_add_def
    by (rule guarded_answers)
       (use jr c1 in \<open>auto simp: wifi_add_body_def json_write_answer json_error_answer
          portal_answer_cases Let_def split: sum.splits\<close>)
qed

lemma wifi_list_answers:
  "\<exists>c' w' pieces. wifi_list E request (c, w) = (Inr None, c', w')
     \<and> conn_closed c' = conn_closed c
     \<and> conn_out c' = conn_out c @ pieces \<and> portal_answer E pieces"
  unfolding wifi_list_def Let_def
  by (rule guarded_answers) (simp add: json_write_answer portal_answer_cases)

lemma wifi_clear_answers:
  "\<exists>c' w' pieces. wifi_clear E request (c, w) = (Inr None, c', w')
     \<and> conn_closed c' = conn_closed c
     \<and> conn_out c' = conn_out c @ pieces \<and> portal_answer E pieces"
  unfolding wifi_clear_def Let_def
  by (rule guarded_answers) (simp add: json_write_answer portal_answer_cases)

lemma wifi_connect_answers:
  "\<exists>c' w' pieces. wifi_connect E request (c, w) = (Inr None, c', w')
     \<and> conn_closed c' = conn_closed c
     \<and> conn_out c' = conn_out c @ pieces \<and> portal_answer E pieces"
  unfolding wifi_connect_def
  by (rule guarded_answers)
     (auto simp: wifi_connect_body_def json_write_answer portal_answer_cases
        split: sum.splits prod.splits bool.splits)

lemma portal_handler_answers:
  assumes "map_of (portal_routes E) u = Some h"
  shows "\<exists>f. h = OfCall f
           \<and> (\<forall>request c w. \<exists>c' w' pieces. f request (c, w) = (Inr None, c', w')
                \<and> conn_closed c' = conn_closed c
                \<and> conn_out c' = conn_out c @ pieces \<and> portal_answer E pieces)"
proof -
  consider "h = OfCall ping" | "h = OfCall (wifi_scan E)" | "h = OfCall (wifi_add E)"
    | "h = OfCall (wifi_list E)" | "h = OfCall (wifi_clear E)" | "h = OfCall (wifi_connect E)"
    using assms by (auto simp: portal_routes_def split: if_splits)
  then show ?thesis
  proof cases
    case 1
    then show ?thesis using ping_answers by blast
  next
    case 2
    then show ?thesis using wifi_scan_answers by blast
  next
    case 3
    then show ?thesis using wifi_add_answers by blast
  next
    case 4
    then show ?thesis using wifi_list_answers by blast
  next
    case 5
    then show ?thesis using wifi_clear_answers by blast
  next
    case 6
    then show ?thesis using wifi_connect_answers by blast
  qed
qed

lemma handle_portal_answers:
  assumes "accepted c m u request1 c2" and "u \<in> fst ` set (portal_routes E)"
  shows "\<exists>c' w' pieces. handle E (portal_routes E) (c, w) = Some (None, c', w')
           \<and> conn_closed c'
           \<and> conn_out c' = conn_out c @ pieces \<and> portal_answer E pieces"
proof -
  obtain h where h: "map_of (portal_routes E) u = Some h"
    using assms(2) by (cases "map_of (portal_routes E) u") (auto simp: map_of_eq_None_iff)
  obtain f where f: "h = OfCall f"
    and all: "\<forall>request c w. \<exists>c' w' pieces. f request (c, w) = (Inr None, c', w')
                \<and> conn_closed c' = conn_closed c
                \<and> conn_out c' = conn_out c @ pieces \<and> portal_answer E pieces"
    using portal_handler_answers [OF h] by blast
  obtain c3 w3 pieces where
    run: "f (request1\<lparr>req_route := req_url request1\<rparr>) (c2, w) = (Inr None, c3, w3)"
    and out: "conn_out c3 = conn_out c2 @ pieces" and ans: "portal_answer E pieces"
    using all by blast
  have u: "req_url request1 = u" and c2: "conn_out c2 = conn_out c"
    using accepted_facts [OF assms(1)] by simp_all
  have "route_request E (portal_routes E) request1 (c2, w) = Some (Inr (), c3, w3)"
    using h f run u by (simp add: route_request_def generate_output.simps)
  then have "handle E (portal_routes E) (c, w) = Some (None, c3\<lparr>conn_closed := True\<rparr>, w3)"
    by (rule handle_accepted_done [OF assms(1)])
  then show ?thesis
    using out ans c2 by simp
qed

text \<open>
  C7, as the code has it. A request that reaches routing leaves what was written
  untouched. Every answer of the captive portal to such a request for one of its six
  routes is a JSON answer with status 200, the JSON error 400 of \<open>/wifi/add\<close> or the
  JSON error 500 of a handler whose body raised: the status line with the code, the
  JSON content type and the body \<open>{"error": message}\<close>; the connection is closed. The
  505 and the 404 are protocol errors raised inside the engine, and the engine answers
  every protocol error that leaves the routing through its error responder: the status
  line with the code and the HTML body \<open><h1>reason</h1>\<close>, appended to what was
  already written, and the connection is closed. That is the answer to an unsupported
  version (505), to a url that no route matches and for which there is no index
  document or asset to send (404), and to a url routed to a file, template or dict
  handler whose file is missing (404): there the status line \<open>HTTP/1.1 200 OK\<close> was
  written before the file was opened, and the 404 lines follow it.
\<close>

theorem error_responses:
  "(accepted c m u request1 c2 \<longrightarrow> conn_out c2 = conn_out c \<and> req_url request1 = u)
   \<and> (accepted c m u request1 c2 \<and> u \<in> fst ` set (portal_routes E) \<longrightarrow>
        (\<exists>c' p' pieces.
           handle E (portal_routes E) (c, p) = Some (None, c', p') \<and> conn_closed c'
           \<and> conn_out c' = conn_out c @ pieces \<and> portal_answer E pieces))
   \<and> (readline c = (line, c1) \<and> decode_ascii line = Inr line \<and> split_ws line = [m, u, v]
        \<and> v \<notin> {''HTTP/1.0'', ''HTTP/1.1''} \<longrightarrow>
      handle E routes (c, w)
        = Some (None,
                c1\<lparr>conn_out := conn_out c1 @ html_error_response 505 ''Version Not Supported'',
                   conn_closed := True\<rparr>, w))
   \<and> (accepted c m u request1 c2
        \<and> route_request E routes request1 (c2, w)
            = Some (Inl (HttpError code reason), c3, w3) \<longrightarrow>
      handle E routes (c, w)
        = Some (None,
                c3\<lparr>conn_out := conn_out c3 @ html_error_response code reason,
                   conn_closed := True\<rparr>, w3))
   \<and> (accepted c m u request1 c2 \<and> unrouted_missing E routes u \<longrightarrow>
      handle E routes (c, w)
        = Some (None,
                c2\<lparr>conn_out := conn_out c2 @ html_error_response 404 ''File Not Found'',
                   conn_closed := True\<rparr>, w))
   \<and> (accepted c m u request1 c2 \<and> dispatched routes u handler
        \<and> handler_file_missing E u handler \<longrightarrow>
      handle E routes (c, w)
        = Some (None,
                c2\<lparr>conn_out := conn_out c2 @ [''HTTP/1.1 200 OK'' @ crlf @ crlf]
                                  @ html_error_response 404 ''File Not Found'',
                   conn_closed := True\<rparr>, w))"
proof (intro conjI impI)
  assume "accepted c m u request1 c2"
  then show "conn_out c2 = conn_out c" and "req_url request1 = u"
    by (rule accepted_facts)+
next
  assume h: "accepted c m u request1 c2 \<and> u \<in> fst ` set (portal_routes E)"
  show "\<exists>c' p' pieces.
           handle E (portal_routes E) (c, p) = Some (None, c', p') \<and> conn_closed c'
           \<and> conn_out c' = conn_out c @ pieces \<and> portal_answer E pieces"
    using h by (elim conjE) (rule handle_portal_answers; assumption)
next
  assume h: "readline c = (line, c1) \<and> decode_ascii line = Inr line \<and> split_ws line = [m, u, v]
        \<and> v \<notin> {''HTTP/1.0'', ''HTTP/1.1''}"
  have "handle E routes (c, w)
           = Some (None,
                   c1\<lparr>conn_out := conn_out c1 @
                         [''HTTP/1.1 505 Version Not Supported'' @ crlf @ crlf,
                          ''<h1>Version Not Supported</h1>''],
                      conn_closed := True\<rparr>, w)"
    using h by (elim conjE) (rule handle_505; assumption)
  then show "handle E routes (c, w)
        = Some (None,
                c1\<lparr>conn_out := conn_out c1 @ html_error_response 505 ''Version Not Supported'',
                   conn_closed := True\<rparr>, w)"
    by (simp add: html_error_response_def str_nat_codes)
next
  assume h: "accepted c m u request1 c2
        \<and> route_request E routes request1 (c2, w)
            = Some (Inl (HttpError code reason), c3, w3)"
  show "handle E routes (c, w)
        = Some (None,
                c3\<lparr>conn_out := conn_out c3 @ html_error_response code reason,
                   conn_closed := True\<rparr>, w3)"
    using h by (elim conjE) (rule handle_accepted_error; assumption)
next
  assume h: "accepted c m u request1 c2 \<and> unrouted_missing E routes u"
  then have a: "accepted c m u request1 c2" and "unrouted_missing E routes u"
    by simp_all
  then have "unrouted_missing E routes (req_url request1)"
    using accepted_facts(3) [OF a] by simp
  then have "route_request E routes request1 (c2, w)
               = Some (Inl (HttpError 404 ''File Not Found''), c2, w)"
    by (rule route_unrouted_missing)
  then show "handle E routes (c, w)
        = Some (None,
                c2\<lparr>conn_out := conn_out c2 @ html_error_response 404 ''File Not Found'',
                   conn_closed := True\<rparr>, w)"
    by (rule handle_accepted_error [OF a])
next
  assume h: "accepted c m u request1 c2 \<and> dispatched routes u handler
        \<and> handler_file_missing E u handler"
  then have a: "accepted c m u request1 c2" and "dispatched routes u handler"
    and "handler_file_missing E u handler"
    by simp_all
  then have "dispatched routes (req_url request1) handler"
    and "handler_file_missing E (req_url request1) handler"
    using accepted_facts(3) [OF a] by simp_all
  then have "route_request E routes request1 (c2, w)
               = Some (Inl (HttpError 404 ''File Not Found''),
                       c2\<lparr>conn_out := conn_out c2 @ [''HTTP/1.1 200 OK'' @ crlf @ crlf]\<rparr>, w)"
    by (rule route_file_missing)
  then have "handle E routes (c, w)
        = Some (None,
                (c2\<lparr>conn_out := conn_out c2 @ [''HTTP/1.1 200 OK'' @ crlf @ crlf]\<rparr>)
                  \<lparr>conn_out := conn_out (c2\<lparr>conn_out := conn_out c2
                                   @ [''HTTP/1.1 200 OK'' @ crlf @ crlf]\<rparr>)
                                 @ html_error_response 404 ''File Not Found'',
                   conn_closed := True\<rparr>, w)"
    by (rule handle_accepted_error [OF a])
  then show "handle E routes (c, w)
        = Some (None,
                c2\<lparr>conn_out := conn_out c2 @ [''HTTP/1.1 200 OK'' @ crlf @ crlf]
                                  @ html_error_response 404 ''File Not Found'',
                   conn_closed := True\<rparr>, w)"
    by simp
qed

lemma accepted_samples:
  "accepted (incoming (''POST /wifi/add HTTP/1.1'' @ crlf @ ''Content-Length: 15'' @ crlf @ crlf
                       @ body_ssid_only))
     ''POST'' ''/wifi/add''
     \<lparr>req_url = ''/wifi/add'', req_method = ''POST'',
      req_headers = [(''Content-Length'', ''15'')], req_route = []\<rparr>
     (incoming body_ssid_only)"
  "accepted (incoming (''GET / HTTP/1.1'' @ crlf @ crlf)) ''GET'' ''/''
     \<lparr>req_url = ''/'', req_method = ''GET'', req_headers = [], req_route = []\<rparr> (incoming [])"
  "accepted (incoming (''GET /app.js HTTP/1.0'' @ crlf @ crlf)) ''GET'' ''/app.js''
     \<lparr>req_url = ''/app.js'', req_method = ''GET'', req_headers = [], req_route = []\<rparr>
     (incoming [])"
  "accepted (incoming (''GET /docs/intro HTTP/1.1'' @ crlf @ crlf)) ''GET'' ''/docs/intro''
     \<lparr>req_url = ''/docs/intro'', req_method = ''GET'', req_headers = [], req_route = []\<rparr>
     (incoming [])"
  by (simp_all add: accepted_def incoming_def readline_def crlf_def decode_ascii_def split_ws_def
      is_space_def read_headers.simps extract_headers_def strip_def body_ssid_only_def)

theorem error_responses_witness:
  "conn_out (incoming body_ssid_only)
     = conn_out (incoming (''POST /wifi/add HTTP/1.1'' @ crlf @ ''Content-Length: 15'' @ crlf
                           @ crlf @ body_ssid_only))
   \<and> (\<exists>c' p' pieces.
         handle sample_env (portal_routes sample_env)
           (incoming (''POST /wifi/add HTTP/1.1'' @ crlf @ ''Content-Length: 15'' @ crlf @ crlf
                      @ body_ssid_only), fresh_portal)
           = Some (None, c', p')
         \<and> conn_closed c'
         \<and> conn_out c'
             = conn_out (incoming (''POST /wifi/add HTTP/1.1'' @ crlf @ ''Content-Length: 15''
                                   @ crlf @ crlf @ body_ssid_only)) @ pieces
         \<and> portal_answer sample_env pieces)
   \<and> handle sample_env (portal_routes sample_env)
       (incoming (''POST /wifi/add HTTP/1.1'' @ crlf @ ''Content-Length: 15'' @ crlf @ crlf
                  @ body_ssid_only), fresh_portal)
     = Some (None,
             \<lparr>conn_in = [],
              conn_out = [''HTTP/1.1 400 Bad Request'' @ crlf,
                          ''Content-Type: application/json'' @ crlf @ crlf,
                          ''{\"error\": \"both ssid and password must be provided\"}''],
              conn_closed = True\<rparr>, fresh_portal)
   \<and> handle sample_env (portal_routes sample_env)
       (incoming (''GET /ping HTTP/2'' @ crlf @ crlf), fresh_portal)
     = Some (None,
             \<lparr>conn_in = crlf,
              conn_out = [''HTTP/1.1 505 Version Not Supported'' @ crlf @ crlf,
                          ''<h1>Version Not Supported</h1>''],
              conn_closed = True\<rparr>, fresh_portal)
   \<and> handle sample_env (portal_routes sample_env)
       (incoming (''GET / HTTP/1.1'' @ crlf @ crlf), fresh_portal)
     = Some (None,
             \<lparr>conn_in = [],
              conn_out = [''HTTP/1.1 404 File Not Found'' @ crlf @ crlf,
                          ''<h1>File Not Found</h1>''],
              conn_closed = True\<rparr>, fresh_portal)
   \<and> handle sample_env (portal_routes sample_env)
       (incoming (''GET /app.js HTTP/1.0'' @ crlf @ crlf), fresh_portal)
     = Some (None,
             \<lparr>conn_in = [],
              conn_out = [''HTTP/1.1 404 File Not Found'' @ crlf @ crlf,
                          ''<h1>File Not Found</h1>''],
              conn_closed = True\<rparr>, fresh_portal)
   \<and> handle sample_env page_routes
       (incoming (''GET /docs/intro HTTP/1.1'' @ crlf @ crlf), fresh_portal)
     = Some (None,
             \<lparr>conn_in = [],
              conn_out = [''HTTP/1.1 200 OK'' @ crlf @ crlf,
                          ''HTTP/1.1 404 File Not Found'' @ crlf @ crlf,
                          ''<h1>File Not Found</h1>''],
              conn_closed = True\<rparr>, fresh_portal)
   \<and> handle sample_env (portal_routes sample_env)
       (incoming (''GET /wifi/scan HTTP/1.1'' @ crlf @ crlf),
        fresh_portal\<lparr>scan_result := [cafe_latin1, home_net]\<rparr>)
     = Some (None,
             \<lparr>conn_in = [],
              conn_out = [''HTTP/1.1 500 Internal Server Error'' @ crlf,
                          ''Content-Type: application/json'' @ crlf @ crlf,
                          ''{\"error\": \"Internal Server Error\"}''],
              conn_closed = True\<rparr>,
             fresh_portal\<lparr>scan_result := [cafe_latin1, home_net]\<rparr>)"
proof -
  let ?add = "incoming (''POST /wifi/add HTTP/1.1'' @ crlf @ ''Content-Length: 15'' @ crlf @ crlf
                        @ body_ssid_only)"
  let ?add1 = "\<lparr>req_url = ''/wifi/add'', req_method = ''POST'',
                 req_headers = [(''Content-Length'', ''15'')], req_route = []\<rparr>"
  have route: "''/wifi/add'' \<in> fst ` set (portal_routes sample_env)"
    by (simp add: portal_routes_def)
  have a: "conn_out (incoming body_ssid_only) = conn_out ?add"
    by (rule error_responses [of ?add "''POST''" "''/wifi/add''" ?add1 "incoming body_ssid_only",
          THEN conjunct1, THEN mp, THEN conjunct1])
       (rule accepted_samples(1))
  have b: "\<exists>c' p' pieces.
         handle sample_env (portal_routes sample_env) (?add, fresh_portal) = Some (None, c', p')
         \<and> conn_closed c' \<and> conn_out c' = conn_out ?add @ pieces
         \<and> portal_answer sample_env pieces"
    by (rule error_responses [of ?add "''POST''" "''/wifi/add''" ?add1 "incoming body_ssid_only",
          THEN conjunct2, THEN conjunct1, THEN mp])
       (intro conjI accepted_samples(1) route)
  have b': "handle sample_env (portal_routes sample_env) (?add, fresh_portal)
     = Some (None,
             \<lparr>conn_in = [],
              conn_out = [''HTTP/1.1 400 Bad Request'' @ crlf,
                          ''Content-Type: application/json'' @ crlf @ crlf,
                          ''{\"error\": \"both ssid and password must be provided\"}''],
              conn_closed = True\<rparr>, fresh_portal)"
    by (simp add: handle_def incoming_def readline_def crlf_def decode_ascii_def split_ws_def
        is_space_def serve_def read_headers.simps extract_headers_def strip_def
        route_request_def portal_routes_def generate_output.simps wifi_add_def
        wifi_add_body_def json_read_def read_def py_int_def int_unsigned_def is_digit_def
        digit_value_def reader_read_def method_get_def guarded_def json_error_def awrite_def
        aclose_def str_nat_codes sample_env_def loads_examples_def body_ssid_only_def
        body_both_def)
  have v2: "readline (incoming (''GET /ping HTTP/2'' @ crlf @ crlf))
              = (''GET /ping HTTP/2'' @ crlf, incoming crlf)
            \<and> decode_ascii (''GET /ping HTTP/2'' @ crlf) = Inr (''GET /ping HTTP/2'' @ crlf)
            \<and> split_ws (''GET /ping HTTP/2'' @ crlf) = [''GET'', ''/ping'', ''HTTP/2'']
            \<and> ''HTTP/2'' \<notin> {''HTTP/1.0'', ''HTTP/1.1''}"
    by (simp add: incoming_def readline_def crlf_def decode_ascii_def split_ws_def is_space_def)
  have c: "handle sample_env (portal_routes sample_env)
             (incoming (''GET /ping HTTP/2'' @ crlf @ crlf), fresh_portal)
           = Some (None,
               (incoming crlf)\<lparr>conn_out := conn_out (incoming crlf)
                      @ html_error_response 505 ''Version Not Supported'',
                   conn_closed := True\<rparr>, fresh_portal)"
    by (rule error_responses [of "incoming (''GET /ping HTTP/2'' @ crlf @ crlf)" "''GET''"
          "''/ping''" _ _ _ _ "''GET /ping HTTP/2'' @ crlf" "incoming crlf" "''HTTP/2''",
          THEN conjunct2, THEN conjunct2, THEN conjunct1, THEN mp])
       (rule v2)
  have index: "route_request sample_env (portal_routes sample_env)
                 \<lparr>req_url = ''/'', req_method = ''GET'', req_headers = [], req_route = []\<rparr>
                 (incoming [], fresh_portal)
               = Some (Inl (HttpError 404 ''File Not Found''), incoming [], fresh_portal)"
    by (simp add: route_request_def portal_routes_def send_file_def sample_env_def
        translate_oserror_def incoming_def)
  have d: "handle sample_env (portal_routes sample_env)
             (incoming (''GET / HTTP/1.1'' @ crlf @ crlf), fresh_portal)
           = Some (None,
               (incoming [])\<lparr>conn_out := conn_out (incoming [])
                      @ html_error_response 404 ''File Not Found'',
                   conn_closed := True\<rparr>, fresh_portal)"
    by (rule error_responses [of "incoming (''GET / HTTP/1.1'' @ crlf @ crlf)" "''GET''" "''/''"
          "\<lparr>req_url = ''/'', req_method = ''GET'', req_headers = [], req_route = []\<rparr>"
          "incoming []",
          THEN conjunct2, THEN conjunct2, THEN conjunct2, THEN conjunct1, THEN mp])
       (intro conjI accepted_samples(2) index)
  have unrouted: "unrouted_missing sample_env (portal_routes sample_env) ''/app.js''"
    by (simp add: unrouted_missing_def portal_routes_def missing_def sample_env_def
        assets_extensions_def suffix_to_prefix)
  have e: "handle sample_env (portal_routes sample_env)
             (incoming (''GET /app.js HTTP/1.0'' @ crlf @ crlf), fresh_portal)
           = Some (None,
               (incoming [])\<lparr>conn_out := conn_out (incoming [])
                      @ html_error_response 404 ''File Not Found'',
                   conn_closed := True\<rparr>, fresh_portal)"
    by (rule error_responses [of "incoming (''GET /app.js HTTP/1.0'' @ crlf @ crlf)" "''GET''"
          "''/app.js''"
          "\<lparr>req_url = ''/app.js'', req_method = ''GET'', req_headers = [], req_route = []\<rparr>"
          "incoming []",
          THEN conjunct2, THEN conjunct2, THEN conjunct2, THEN conjunct2, THEN conjunct1,
          THEN mp])
       (intro conjI accepted_samples(3) unrouted)
  have page: "dispatched page_routes ''/docs/intro'' (OfStr ''./docs.html'')
              \<and> handler_file_missing sample_env ''/docs/intro''
                  (OfStr ''./docs.html'' :: portal handler)"
    by (simp add: dispatched_def page_routes_def missing_def sample_env_def)
  have f: "handle sample_env page_routes
             (incoming (''GET /docs/intro HTTP/1.1'' @ crlf @ crlf), fresh_portal)
           = Some (None,
               (incoming [])\<lparr>conn_out := conn_out (incoming [])
                      @ [''HTTP/1.1 200 OK'' @ crlf @ crlf]
                      @ html_error_response 404 ''File Not Found'',
                   conn_closed := True\<rparr>, fresh_portal)"
    by (rule error_responses [of "incoming (''GET /docs/intro HTTP/1.1'' @ crlf @ crlf)"
          "''GET''" "''/docs/intro''"
          "\<lparr>req_url = ''/docs/intro'', req_method = ''GET'', req_headers = [],
            req_route = []\<rparr>"
          "incoming []",
          THEN conjunct2, THEN conjunct2, THEN conjunct2, THEN conjunct2, THEN conjunct2,
          THEN mp])
       (rule conjI [OF accepted_samples(4) page])
  have scan: "scan_available_networks [cafe_latin1, home_net] = Inl UnicodeError"
    by (simp add: scan_available_networks_def sorted_reverse_def cafe_latin1_def
        home_net_def decode_utf8_def is_printable_def cont_def sample_bssid_def hex2_def
        hex_digit_def utf8_chars.simps)
  have g: "handle sample_env (portal_routes sample_env)
       (incoming (''GET /wifi/scan HTTP/1.1'' @ crlf @ crlf),
        fresh_portal\<lparr>scan_result := [cafe_latin1, home_net]\<rparr>)
     = Some (None,
             \<lparr>conn_in = [],
              conn_out = [''HTTP/1.1 500 Internal Server Error'' @ crlf,
                          ''Content-Type: application/json'' @ crlf @ crlf,
                          ''{\"error\": \"Internal Server Error\"}''],
              conn_closed = True\<rparr>,
             fresh_portal\<lparr>scan_result := [cafe_latin1, home_net]\<rparr>)"
    by (simp add: handle_def incoming_def readline_def crlf_def decode_ascii_def split_ws_def
        is_space_def serve_def read_headers.simps route_request_def portal_routes_def
        generate_output.simps wifi_scan_def wifi_scan_body_def scan guarded_def json_error_def
        awrite_def aclose_def str_nat_codes sample_env_def)
  show ?thesis
    using a b b' c d e f g
    by (simp add: incoming_def html_error_response_def str_nat_codes)
qed

text \<open>
  C7 as stated fails for the 404: \<open>GET /nope HTTP/1.1\<close> sent to the captive portal is
  answered with the status line, a blank line and the HTML body
  \<open><h1>File Not Found</h1>\<close>, not with a JSON body \<open>{"error": ...}\<close>.
\<close>

theorem not_found_response_is_html:
  "handle sample_env (portal_routes sample_env)
     (incoming (''GET /nope HTTP/1.1'' @ crlf @ crlf), fresh_portal)
     = Some (None,
             \<lparr>conn_in = [],
              conn_out = [''HTTP/1.1 404 File Not Found'' @ crlf @ crlf,
                          ''<h1>File Not Found</h1>''],
              conn_closed = True\<rparr>, fresh_portal)"
  by (simp add: handle_def incoming_def readline_def crlf_def decode_ascii_def split_ws_def
      is_space_def serve_def route_request_def portal_routes_def error_def awrite_def
      aclose_def assets_extensions_def read_headers.simps suffix_to_prefix str_nat_codes)

section \<open>Properties of routing\<close>

lemma find_route_wildcard:
  "[] \<notin> fst ` set routes \<Longrightarrow> map_of routes u = None \<Longrightarrow>
   find_route routes u = Inr (find (\<lambda>(pattern, handler). wildcard_match pattern u) routes)"
proof (induction routes)
  case Nil
  show ?case by simp
next
  case (Cons entry routes)
  obtain pattern handler where entry: "entry = (pattern, handler)" by (cases entry)
  have ne: "pattern \<noteq> []" and nu: "pattern \<noteq> u"
    using Cons.prems entry by (auto split: if_splits)
  have rest: "find_route routes u
                = Inr (find (\<lambda>(pattern, handler). wildcard_match pattern u) routes)"
    using Cons.IH Cons.prems entry by (auto split: if_splits)
  show ?case
    using ne nu rest entry by (simp add: wildcard_match_def)
qed

text \<open>
  C9. A url that is a key of the route table is dispatched to its handler. Otherwise,
  in a table without an empty pattern: the first route whose pattern ends in \<open>*\<close> and
  whose prefix starts the url is dispatched; with no such route, the url \<open>""\<close> or
  \<open>"/"\<close> sends the index document; any other url that ends in \<open>.html\<close>, \<open>.css\<close> or
  \<open>.js\<close> sends the static file of that name, opened in binary mode; and every other
  url fails with the protocol error 404.
\<close>

theorem routing_precedence:
  "(map_of routes (req_url request) = Some handler \<longrightarrow>
      route_request E routes request cw
        = generate_output E (request\<lparr>req_route := req_url request\<rparr>) handler cw)
   \<and> ([] \<notin> fst ` set routes \<and> map_of routes (req_url request) = None \<longrightarrow>
        (find (\<lambda>(pattern, handler). wildcard_match pattern (req_url request)) routes
           = Some (pattern, handler) \<longrightarrow>
         route_request E routes request cw
           = generate_output E (request\<lparr>req_route := pattern\<rparr>) handler cw)
      \<and> (find (\<lambda>(pattern, handler). wildcard_match pattern (req_url request)) routes = None \<longrightarrow>
           (req_url request \<in> {'''', ''/''} \<longrightarrow>
            route_request E routes request cw
              = (case send_file E INDEX_FILE 64 False (fst cw) of
                   (r, c') \<Rightarrow> Some (r, c', snd cw)))
         \<and> (req_url request \<notin> {'''', ''/''} \<and> has_asset_extension (req_url request) \<longrightarrow>
            route_request E routes request cw
              = (case send_file E (STATIC_DIR @ ''/'' @ req_url request) 64 True (fst cw) of
                   (r, c') \<Rightarrow> Some (r, c', snd cw)))
         \<and> (req_url request \<notin> {'''', ''/''} \<and> \<not> has_asset_extension (req_url request) \<longrightarrow>
            route_request E routes request cw
              = Some (Inl (HttpError 404 ''File Not Found''), cw))))"
proof (intro conjI impI)
  assume "map_of routes (req_url request) = Some handler"
  then show "route_request E routes request cw
        = generate_output E (request\<lparr>req_route := req_url request\<rparr>) handler cw"
    by (simp add: route_request_def)
next
  assume h: "[] \<notin> fst ` set routes \<and> map_of routes (req_url request) = None"
    and f: "find (\<lambda>(pattern, handler). wildcard_match pattern (req_url request)) routes
              = Some (pattern, handler)"
  have "find_route routes (req_url request) = Inr (Some (pattern, handler))"
    using h f find_route_wildcard [of routes "req_url request"] by simp
  then show "route_request E routes request cw
           = generate_output E (request\<lparr>req_route := pattern\<rparr>) handler cw"
    using h by (simp add: route_request_def)
next
  assume h: "[] \<notin> fst ` set routes \<and> map_of routes (req_url request) = None"
    and f: "find (\<lambda>(pattern, handler). wildcard_match pattern (req_url request)) routes = None"
    and u: "req_url request \<in> {'''', ''/''}"
  have "find_route routes (req_url request) = Inr None"
    using h f find_route_wildcard [of routes "req_url request"] by simp
  then show "route_request E routes request cw
              = (case send_file E INDEX_FILE 64 False (fst cw) of
                   (r, c') \<Rightarrow> Some (r, c', snd cw))"
    using h u by (simp add: route_request_def)
next
  assume h: "[] \<notin> fst ` set routes \<and> map_of routes (req_url request) = None"
    and f: "find (\<lambda>(pattern, handler). wildcard_match pattern (req_url request)) routes = None"
    and u: "req_url request \<notin> {'''', ''/''} \<and> has_asset_extension (req_url request)"
  have "find_route routes (req_url request) = Inr None"
    using h f find_route_wildcard [of routes "req_url request"] by simp
  moreover have "list_ex (\<lambda>extension. suffix (''.'' @ extension) (req_url request))
                   assets_extensions"
    using u by (simp add: has_asset_extension_def list_ex_iff)
  ultimately show "route_request E routes request cw
              = (case send_file E (STATIC_DIR @ ''/'' @ req_url request) 64 True (fst cw) of
                   (r, c') \<Rightarrow> Some (r, c', snd cw))"
    using h u by (simp add: route_request_def)
next
  assume h: "[] \<notin> fst ` set routes \<and> map_of routes (req_url request) = None"
    and f: "find (\<lambda>(pattern, handler). wildcard_match pattern (req_url request)) routes = None"
    and u: "req_url request \<notin> {'''', ''/''} \<and> \<not> has_asset_extension (req_url request)"
  have "find_route routes (req_url request) = Inr None"
    using h f find_route_wildcard [of routes "req_url request"] by simp
  moreover have "\<not> list_ex (\<lambda>extension. suffix (''.'' @ extension) (req_url request))
                   assets_extensions"
    using u by (simp add: has_asset_extension_def list_ex_iff)
  ultimately show "route_request E routes request cw
              = Some (Inl (HttpError 404 ''File Not Found''), cw)"
    using h u by (simp add: route_request_def)
qed

theorem routing_precedence_witness:
  "route_request site_env site_routes (get_request ''/ping'') (incoming [], fresh_portal)
     = Some (Inr (),
             \<lparr>conn_in = [],
              conn_out = [''HTTP/1.1 200 OK'' @ crlf,
                          ''Content-Type: application/json'' @ crlf @ crlf,
                          ''{\"status\": \"pong\"}''],
              conn_closed = False\<rparr>, fresh_portal)
   \<and> route_request site_env site_routes (get_request ''/docs/intro'') (incoming [], fresh_portal)
     = Some (Inr (),
             \<lparr>conn_in = [],
              conn_out = [''HTTP/1.1 200 OK'' @ crlf @ crlf, ''<html>docs</html>''],
              conn_closed = False\<rparr>, fresh_portal)
   \<and> route_request site_env site_routes (get_request ''/'') (incoming [], fresh_portal)
     = Some (Inr (),
             \<lparr>conn_in = [], conn_out = [''<html>index</html>''], conn_closed = False\<rparr>,
             fresh_portal)
   \<and> route_request site_env site_routes (get_request ''/app.js'') (incoming [], fresh_portal)
     = Some (Inr (),
             \<lparr>conn_in = [], conn_out = [''run()''], conn_closed = False\<rparr>, fresh_portal)
   \<and> route_request site_env site_routes (get_request ''/nope'') (incoming [], fresh_portal)
     = Some (Inl (HttpError 404 ''File Not Found''), incoming [], fresh_portal)"
proof -
  note R = routing_precedence [where E = site_env and routes = site_routes
      and cw = "(incoming [], fresh_portal)"]
  have wf: "[] \<notin> fst ` set site_routes"
    by (simp add: site_routes_def)
  have exact: "map_of site_routes (req_url (get_request ''/ping'')) = Some (OfCall ping)"
    by (simp add: site_routes_def get_request_def)
  have absent: "map_of site_routes (req_url (get_request ''/docs/intro'')) = None"
    "map_of site_routes (req_url (get_request ''/'')) = None"
    "map_of site_routes (req_url (get_request ''/app.js'')) = None"
    "map_of site_routes (req_url (get_request ''/nope'')) = None"
    by (simp_all add: site_routes_def get_request_def)
  have wild: "find (\<lambda>(pattern, handler). wildcard_match pattern (req_url (get_request ''/docs/intro'')))
                site_routes = Some (''/docs/*'', OfStr ''./docs.html'')"
    by (simp add: site_routes_def get_request_def wildcard_match_def)
  have none: "find (\<lambda>(pattern, handler). wildcard_match pattern (req_url (get_request ''/'')))
                site_routes = None"
    "find (\<lambda>(pattern, handler). wildcard_match pattern (req_url (get_request ''/app.js'')))
                site_routes = None"
    "find (\<lambda>(pattern, handler). wildcard_match pattern (req_url (get_request ''/nope'')))
                site_routes = None"
    by (simp_all add: site_routes_def get_request_def wildcard_match_def)
  have kind: "req_url (get_request ''/'') \<in> {'''', ''/''}"
    "req_url (get_request ''/app.js'') \<notin> {'''', ''/''}
       \<and> has_asset_extension (req_url (get_request ''/app.js''))"
    "req_url (get_request ''/nope'') \<notin> {'''', ''/''}
       \<and> \<not> has_asset_extension (req_url (get_request ''/nope''))"
    by (simp_all add: get_request_def has_asset_extension_def assets_extensions_def
        suffix_to_prefix)
  have r1: "route_request site_env site_routes (get_request ''/ping'') (incoming [], fresh_portal)
              = generate_output site_env
                  ((get_request ''/ping'')\<lparr>req_route := req_url (get_request ''/ping'')\<rparr>)
                  (OfCall ping) (incoming [], fresh_portal)"
    using R [where request = "get_request ''/ping''" and handler = "OfCall ping"] exact
    by simp
  have r2: "route_request site_env site_routes (get_request ''/docs/intro'')
                (incoming [], fresh_portal)
              = generate_output site_env ((get_request ''/docs/intro'')\<lparr>req_route := ''/docs/*''\<rparr>)
                  (OfStr ''./docs.html'') (incoming [], fresh_portal)"
    using R [where request = "get_request ''/docs/intro''" and pattern = "''/docs/*''"
        and handler = "OfStr ''./docs.html''"] wf absent(1) wild
    by simp
  have r3: "route_request site_env site_routes (get_request ''/'') (incoming [], fresh_portal)
              = (case send_file site_env INDEX_FILE 64 False (fst (incoming [], fresh_portal)) of
                   (r, c') \<Rightarrow> Some (r, c', snd (incoming [], fresh_portal)))"
    using R [where request = "get_request ''/''"] wf absent(2) none(1) kind(1)
    by (simp add: get_request_def)
  have r4: "route_request site_env site_routes (get_request ''/app.js'') (incoming [], fresh_portal)
              = (case send_file site_env (STATIC_DIR @ ''/'' @ req_url (get_request ''/app.js'')) 64
                        True (fst (incoming [], fresh_portal)) of
                   (r, c') \<Rightarrow> Some (r, c', snd (incoming [], fresh_portal)))"
    using R [where request = "get_request ''/app.js''"] wf absent(3) none(2) kind(2)
    by (simp add: get_request_def)
  have r5: "route_request site_env site_routes (get_request ''/nope'') (incoming [], fresh_portal)
              = Some (Inl (HttpError 404 ''File Not Found''), incoming [], fresh_portal)"
    using R [where request = "get_request ''/nope''"] wf absent(4) none(3) kind(3)
    by (simp add: get_request_def)
  have e1: "generate_output site_env
              ((get_request ''/ping'')\<lparr>req_route := req_url (get_request ''/ping'')\<rparr>)
              (OfCall ping) (incoming [], fresh_portal)
            = Some (Inr (),
                \<lparr>conn_in = [],
                 conn_out = [''HTTP/1.1 200 OK'' @ crlf,
                             ''Content-Type: application/json'' @ crlf @ crlf,
                             ''{\"status\": \"pong\"}''],
                 conn_closed = False\<rparr>, fresh_portal)"
    by (simp add: generate_output.simps ping_def json_write_def awrite_def incoming_def)
  have e2: "generate_output site_env ((get_request ''/docs/intro'')\<lparr>req_route := ''/docs/*''\<rparr>)
              (OfStr ''./docs.html'') (incoming [], fresh_portal)
            = Some (Inr (),
                \<lparr>conn_in = [],
                 conn_out = [''HTTP/1.1 200 OK'' @ crlf @ crlf, ''<html>docs</html>''],
                 conn_closed = False\<rparr>, fresh_portal)"
    by (simp add: generate_output.simps send_file_def write_to_def awrite_def incoming_def
        site_env_def)
  have e3: "(case send_file site_env INDEX_FILE 64 False (fst (incoming [], fresh_portal)) of
               (r, c') \<Rightarrow> Some (r, c', snd (incoming [], fresh_portal)))
            = Some (Inr (),
                \<lparr>conn_in = [], conn_out = [''<html>index</html>''], conn_closed = False\<rparr>,
                fresh_portal)"
    by (simp add: send_file_def incoming_def site_env_def INDEX_FILE_def STATIC_DIR_def)
  have e4: "(case send_file site_env (STATIC_DIR @ ''/'' @ req_url (get_request ''/app.js'')) 64
                    True (fst (incoming [], fresh_portal)) of
               (r, c') \<Rightarrow> Some (r, c', snd (incoming [], fresh_portal)))
            = Some (Inr (),
                \<lparr>conn_in = [], conn_out = [''run()''], conn_closed = False\<rparr>, fresh_portal)"
    by (simp add: send_file_def incoming_def site_env_def STATIC_DIR_def get_request_def)
  show ?thesis
    using r1 r2 r3 r4 r5 e1 e2 e3 e4 by simp
qed

section \<open>Properties of the captive portal\<close>

lemma wifi_add_rejects_falsy:
  assumes "json_read E request c = (Inr (PDict content), c1)"
    and "\<not> truthy (case map_of content ''ssid'' of None \<Rightarrow> PNone | Some v \<Rightarrow> v)
         \<or> \<not> truthy (case map_of content ''password'' of None \<Rightarrow> PNone | Some v \<Rightarrow> v)"
  shows "wifi_add E request (c, w)
           = (Inr None,
              c1\<lparr>conn_out := conn_out c1 @
                    [''HTTP/1.1 400 Bad Request'' @ crlf,
                     ''Content-Type: application/json'' @ crlf @ crlf,
                     json_dumps E (PDict [(''error'',
                        PStr ''both ssid and password must be provided'')])]\<rparr>,
              w)"
  using assms
  by (auto simp: wifi_add_def wifi_add_body_def guarded_def method_get_def json_error_def
      awrite_def str_nat_codes)

lemma wifi_add_stores:
  assumes "json_read E request c = (Inr (PDict content), c1)"
    and "map_of content ''ssid'' = Some (PStr name)" and "name \<noteq> []"
    and "map_of content ''password'' = Some (PStr secret)" and "secret \<noteq> []"
  shows "wifi_add E request (c, w)
           = (Inr None,
              c1\<lparr>conn_out := conn_out c1 @
                    [''HTTP/1.1 200 OK'' @ crlf,
                     ''Content-Type: application/json'' @ crlf @ crlf,
                     json_dumps E (PDict [(''status'', PStr ''credentials saved'')])]\<rparr>,
              w\<lparr>creds := (creds w)
                   \<lparr>credentials := dict_set (credentials (creds w)) (PStr name) (PStr secret),
                    files := AList.update (storage (creds w))
                               (dict_set (credentials (creds w)) (PStr name) (PStr secret))
                               (files (creds w))\<rparr>\<rparr>)"
  using assms
  by (simp add: wifi_add_def wifi_add_body_def guarded_def method_get_def json_write_def
      awrite_def add_def save_def)

text \<open>
  C8, as the code has it, for a request whose body \<open>json_read\<close> returns as a JSON
  object. If \<open>ssid\<close> or \<open>password\<close> is missing or the empty string, \<open>/wifi/add\<close>
  answers with status 400 and the error message
  "both ssid and password must be provided", and the portal state, the credential
  store with its file included, is unchanged. If both are non-empty strings, the
  credential is stored in the mapping, the mapping is written to the backing file, and
  the answer is 200 with the body \<open>{"status": "credentials saved"}\<close>.
\<close>

theorem wifi_add_contract:
  "json_read E request c = (Inr (PDict content), c1) \<Longrightarrow>
     (map_of content ''ssid'' \<in> {None, Some (PStr [])}
        \<or> map_of content ''password'' \<in> {None, Some (PStr [])} \<longrightarrow>
      wifi_add E request (c, w)
        = (Inr None,
           c1\<lparr>conn_out := conn_out c1 @
                 [''HTTP/1.1 400 Bad Request'' @ crlf,
                  ''Content-Type: application/json'' @ crlf @ crlf,
                  json_dumps E (PDict [(''error'',
                     PStr ''both ssid and password must be provided'')])]\<rparr>,
           w))
   \<and> (map_of content ''ssid'' = Some (PStr name) \<and> name \<noteq> []
        \<and> map_of content ''password'' = Some (PStr secret) \<and> secret \<noteq> [] \<longrightarrow>
      wifi_add E request (c, w)
        = (Inr None,
           c1\<lparr>conn_out := conn_out c1 @
                 [''HTTP/1.1 200 OK'' @ crlf,
                  ''Content-Type: application/json'' @ crlf @ crlf,
                  json_dumps E (PDict [(''status'', PStr ''credentials saved'')])]\<rparr>,
           w\<lparr>creds := (creds w)
                \<lparr>credentials := dict_set (credentials (creds w)) (PStr name) (PStr secret),
                 files := AList.update (storage (creds w))
                            (dict_set (credentials (creds w)) (PStr name) (PStr secret))
                            (files (creds w))\<rparr>\<rparr>))"
proof (intro conjI impI)
  assume r: "json_read E request c = (Inr (PDict content), c1)"
    and m: "map_of content ''ssid'' \<in> {None, Some (PStr [])}
            \<or> map_of content ''password'' \<in> {None, Some (PStr [])}"
  from m have "\<not> truthy (case map_of content ''ssid'' of None \<Rightarrow> PNone | Some v \<Rightarrow> v)
         \<or> \<not> truthy (case map_of content ''password'' of None \<Rightarrow> PNone | Some v \<Rightarrow> v)"
    by auto
  with r show "wifi_add E request (c, w)
        = (Inr None,
           c1\<lparr>conn_out := conn_out c1 @
                 [''HTTP/1.1 400 Bad Request'' @ crlf,
                  ''Content-Type: application/json'' @ crlf @ crlf,
                  json_dumps E (PDict [(''error'',
                     PStr ''both ssid and password must be provided'')])]\<rparr>,
           w)"
    by (rule wifi_add_rejects_falsy)
next
  assume r: "json_read E request c = (Inr (PDict content), c1)"
    and h: "map_of content ''ssid'' = Some (PStr name) \<and> name \<noteq> []
        \<and> map_of content ''password'' = Some (PStr secret) \<and> secret \<noteq> []"
  show "wifi_add E request (c, w)
        = (Inr None,
           c1\<lparr>conn_out := conn_out c1 @
                 [''HTTP/1.1 200 OK'' @ crlf,
                  ''Content-Type: application/json'' @ crlf @ crlf,
                  json_dumps E (PDict [(''status'', PStr ''credentials saved'')])]\<rparr>,
           w\<lparr>creds := (creds w)
                \<lparr>credentials := dict_set (credentials (creds w)) (PStr name) (PStr secret),
                 files := AList.update (storage (creds w))
                            (dict_set (credentials (creds w)) (PStr name) (PStr secret))
                            (files (creds w))\<rparr>\<rparr>)"
    using r h by (elim conjE) (rule wifi_add_stores; assumption)
qed

lemma post_ssid_only_read:
  "json_read sample_env (post_request ''15'') (incoming body_ssid_only)
     = (Inr (PDict [(''ssid'', PStr ''home'')]), incoming [])"
  by (simp add: json_read_def read_def post_request_def py_int_def strip_def is_space_def
      int_unsigned_def is_digit_def digit_value_def reader_read_def incoming_def
      body_ssid_only_def body_both_def loads_examples_def sample_env_def)

lemma post_both_read:
  "json_read sample_env (post_request ''35'') (incoming body_both)
     = (Inr (PDict [(''ssid'', PStr ''home''), (''password'', PStr ''secret'')]), incoming [])"
  by (simp add: json_read_def read_def post_request_def py_int_def strip_def is_space_def
      int_unsigned_def is_digit_def digit_value_def reader_read_def incoming_def
      body_ssid_only_def body_both_def loads_examples_def sample_env_def)

theorem wifi_add_contract_witness:
  "wifi_add sample_env (post_request ''15'') (incoming body_ssid_only, fresh_portal)
     = (Inr None,
        \<lparr>conn_in = [],
         conn_out = [''HTTP/1.1 400 Bad Request'' @ crlf,
                     ''Content-Type: application/json'' @ crlf @ crlf,
                     ''{\"error\": \"both ssid and password must be provided\"}''],
         conn_closed = False\<rparr>,
        fresh_portal)
   \<and> wifi_add sample_env (post_request ''35'') (incoming body_both, fresh_portal)
     = (Inr None,
        \<lparr>conn_in = [],
         conn_out = [''HTTP/1.1 200 OK'' @ crlf,
                     ''Content-Type: application/json'' @ crlf @ crlf,
                     ''{\"status\": \"credentials saved\"}''],
         conn_closed = False\<rparr>,
        fresh_portal\<lparr>creds :=
          \<lparr>storage = ''wifi.dat'', credentials = [(PStr ''home'', PStr ''secret'')],
           files = [(''wifi.dat'', [(PStr ''home'', PStr ''secret'')])]\<rparr>\<rparr>)"
proof -
  have missing: "map_of [(''ssid'', PStr ''home'')] ''ssid'' \<in> {None, Some (PStr [])}
                 \<or> map_of [(''ssid'', PStr ''home'')] ''password'' \<in> {None, Some (PStr [])}"
    by simp
  have present: "map_of [(''ssid'', PStr ''home''), (''password'', PStr ''secret'')] ''ssid''
                   = Some (PStr ''home'') \<and> ''home'' \<noteq> []
                 \<and> map_of [(''ssid'', PStr ''home''), (''password'', PStr ''secret'')] ''password''
                   = Some (PStr ''secret'') \<and> ''secret'' \<noteq> []"
    by simp
  have a: "wifi_add sample_env (post_request ''15'') (incoming body_ssid_only, fresh_portal)
        = (Inr None,
           (incoming [])\<lparr>conn_out := conn_out (incoming []) @
                 [''HTTP/1.1 400 Bad Request'' @ crlf,
                  ''Content-Type: application/json'' @ crlf @ crlf,
                  json_dumps sample_env (PDict [(''error'',
                     PStr ''both ssid and password must be provided'')])]\<rparr>,
           fresh_portal)"
    by (rule wifi_add_contract [OF post_ssid_only_read, THEN conjunct1, THEN mp]) (rule missing)
  have b: "wifi_add sample_env (post_request ''35'') (incoming body_both, fresh_portal)
        = (Inr None,
           (incoming [])\<lparr>conn_out := conn_out (incoming []) @
                 [''HTTP/1.1 200 OK'' @ crlf,
                  ''Content-Type: application/json'' @ crlf @ crlf,
                  json_dumps sample_env (PDict [(''status'', PStr ''credentials saved'')])]\<rparr>,
           fresh_portal\<lparr>creds := (creds fresh_portal)
                \<lparr>credentials := dict_set (credentials (creds fresh_portal))
                                  (PStr ''home'') (PStr ''secret''),
                 files := AList.update (storage (creds fresh_portal))
                            (dict_set (credentials (creds fresh_portal))
                               (PStr ''home'') (PStr ''secret''))
                            (files (creds fresh_portal))\<rparr>\<rparr>)"
    by (rule wifi_add_contract [OF post_both_read, THEN conjunct2, THEN mp]) (rule present)
  show ?thesis
    unfolding a b
    by (simp add: incoming_def sample_env_def fresh_portal_def fresh_store_def)
qed

text \<open>
  C8 as stated fails where the body does not reach the handler as a JSON object with
  string fields. Three requests \<open>POST /wifi/add\<close> to a fresh portal: with both fields
  present and non-empty, under a header spelled \<open>content-length\<close>, the answer is the
  400 and nothing is stored (only the exact name \<open>Content-Length\<close> is kept from the
  headers, so the body is never read); with the body \<open>[1]\<close>, in which both fields are
  missing, the answer is the 500, not the 400 (\<open>content.get\<close> raises on a list); with
  \<open>ssid\<close> a non-empty list and a non-empty password, the answer is the 500 and nothing
  is stored (a list is no dict key).
\<close>

theorem wifi_add_outside_contract:
  "handle wide_env (portal_routes wide_env)
       (incoming (''POST /wifi/add HTTP/1.1'' @ crlf @ ''content-length: 35'' @ crlf @ crlf
                  @ body_both),
        fresh_portal)
     = Some (None,
             \<lparr>conn_in = body_both,
              conn_out = [''HTTP/1.1 400 Bad Request'' @ crlf,
                          ''Content-Type: application/json'' @ crlf @ crlf,
                          ''{\"error\": \"both ssid and password must be provided\"}''],
              conn_closed = True\<rparr>,
             fresh_portal)
   \<and> handle wide_env (portal_routes wide_env)
       (incoming (''POST /wifi/add HTTP/1.1'' @ crlf @ ''Content-Length: 3'' @ crlf @ crlf
                  @ body_array),
        fresh_portal)
     = Some (None,
             \<lparr>conn_in = [],
              conn_out = [''HTTP/1.1 500 Internal Server Error'' @ crlf,
                          ''Content-Type: application/json'' @ crlf @ crlf,
                          ''{\"error\": \"Internal Server Error\"}''],
              conn_closed = True\<rparr>,
             fresh_portal)
   \<and> handle wide_env (portal_routes wide_env)
       (incoming (''POST /wifi/add HTTP/1.1'' @ crlf @ ''Content-Length: 34'' @ crlf @ crlf
                  @ body_list_ssid),
        fresh_portal)
     = Some (None,
             \<lparr>conn_in = [],
              conn_out = [''HTTP/1.1 500 Internal Server Error'' @ crlf,
                          ''Content-Type: application/json'' @ crlf @ crlf,
                          ''{\"error\": \"Internal Server Error\"}''],
              conn_closed = True\<rparr>,
             fresh_portal)"
  by (simp add: handle_def incoming_def readline_def crlf_def decode_ascii_def split_ws_def
      is_space_def serve_def read_headers.simps extract_headers_def strip_def
      route_request_def portal_routes_def generate_output.simps wifi_add_def
      wifi_add_body_def json_read_def read_def py_int_def int_unsigned_def is_digit_def
      digit_value_def reader_read_def method_get_def guarded_def json_error_def json_write_def
      awrite_def aclose_def str_nat_codes sample_env_def wide_env_def loads_more_def
      loads_examples_def body_array_def body_list_ssid_def body_both_def body_ssid_only_def
      add_def save_def fresh_portal_def fresh_store_def)

lemma json_read_absent:
  assumes "json_loads E ''{}'' = Inr (PDict [])"
    and "map_of (req_headers request) ''Content-Length'' = None" and "json_loads E [] = Inl e"
  shows "json_read E request c = (Inr (PDict []), c)"
  using assms by (simp add: json_read_def read_def)

lemma json_read_malformed:
  assumes "json_loads E ''{}'' = Inr (PDict [])"
    and "map_of (req_headers request) ''Content-Length'' = Some v" and "py_int v = Inr n"
    and "json_loads E (fst (reader_read n c)) = Inl e"
  shows "json_read E request c = (Inr (PDict []), snd (reader_read n c))"
proof -
  obtain content c1 where r: "reader_read n c = (content, c1)"
    by (cases "reader_read n c")
  show ?thesis
    using assms r by (simp add: json_read_def read_def)
qed

lemma wifi_add_empty_object:
  assumes "json_read E request c = (Inr (PDict []), c1)"
  shows "wifi_add E request (c, w)
           = (Inr None,
              c1\<lparr>conn_out := conn_out c1 @
                    [''HTTP/1.1 400 Bad Request'' @ crlf,
                     ''Content-Type: application/json'' @ crlf @ crlf,
                     json_dumps E (PDict [(''error'',
                        PStr ''both ssid and password must be provided'')])]\<rparr>,
              w)"
  by (rule wifi_add_rejects_falsy [OF assms]) simp

text \<open>
  C10, as the code has it, for a \<open>json.loads\<close> that reads \<open>{}\<close> as the empty mapping.
  For a request without a \<open>Content-Length\<close> header (no body; the empty text is not
  JSON), and for a request whose \<open>Content-Length\<close> is an integer and whose body, as
  read, does not parse as JSON, \<open>json_read\<close> returns the empty mapping instead of
  raising, and \<open>/wifi/add\<close> answers with the 400 validation error.
\<close>

theorem json_read_falls_back:
  "json_loads E ''{}'' = Inr (PDict []) \<Longrightarrow>
     (map_of (req_headers request) ''Content-Length'' = None \<and> json_loads E [] = Inl e \<longrightarrow>
        json_read E request c = (Inr (PDict []), c)
      \<and> wifi_add E request (c, w)
          = (Inr None,
             c\<lparr>conn_out := conn_out c @
                  [''HTTP/1.1 400 Bad Request'' @ crlf,
                   ''Content-Type: application/json'' @ crlf @ crlf,
                   json_dumps E (PDict [(''error'',
                      PStr ''both ssid and password must be provided'')])]\<rparr>,
             w))
   \<and> (map_of (req_headers request) ''Content-Length'' = Some v \<and> py_int v = Inr n
        \<and> json_loads E (fst (reader_read n c)) = Inl e \<longrightarrow>
        json_read E request c = (Inr (PDict []), snd (reader_read n c))
      \<and> wifi_add E request (c, w)
          = (Inr None,
             (snd (reader_read n c))\<lparr>conn_out := conn_out (snd (reader_read n c)) @
                  [''HTTP/1.1 400 Bad Request'' @ crlf,
                   ''Content-Type: application/json'' @ crlf @ crlf,
                   json_dumps E (PDict [(''error'',
                      PStr ''both ssid and password must be provided'')])]\<rparr>,
             w))"
proof (intro conjI impI)
  assume l: "json_loads E ''{}'' = Inr (PDict [])"
    and h: "map_of (req_headers request) ''Content-Length'' = None \<and> json_loads E [] = Inl e"
  show r: "json_read E request c = (Inr (PDict []), c)"
    using l h by (elim conjE) (rule json_read_absent; assumption)
  show "wifi_add E request (c, w)
          = (Inr None,
             c\<lparr>conn_out := conn_out c @
                  [''HTTP/1.1 400 Bad Request'' @ crlf,
                   ''Content-Type: application/json'' @ crlf @ crlf,
                   json_dumps E (PDict [(''error'',
                      PStr ''both ssid and password must be provided'')])]\<rparr>,
             w)"
    by (rule wifi_add_empty_object [OF r])
next
  assume l: "json_loads E ''{}'' = Inr (PDict [])"
    and h: "map_of (req_headers request) ''Content-Length'' = Some v \<and> py_int v = Inr n
        \<and> json_loads E (fst (reader_read n c)) = Inl e"
  show r: "json_read E request c = (Inr (PDict []), snd (reader_read n c))"
    using l h by (elim conjE) (rule json_read_malformed; assumption)
  show "wifi_add E request (c, w)
          = (Inr None,
             (snd (reader_read n c))\<lparr>conn_out := conn_out (snd (reader_read n c)) @
                  [''HTTP/1.1 400 Bad Request'' @ crlf,
                   ''Content-Type: application/json'' @ crlf @ crlf,
                   json_dumps E (PDict [(''error'',
                      PStr ''both ssid and password must be provided'')])]\<rparr>,
             w)"
    by (rule wifi_add_empty_object [OF r])
qed

theorem json_read_falls_back_witness:
  "json_read sample_env bare_request (incoming []) = (Inr (PDict []), incoming [])
   \<and> wifi_add sample_env bare_request (incoming [], fresh_portal)
       = (Inr None,
          \<lparr>conn_in = [],
           conn_out = [''HTTP/1.1 400 Bad Request'' @ crlf,
                       ''Content-Type: application/json'' @ crlf @ crlf,
                       ''{\"error\": \"both ssid and password must be provided\"}''],
           conn_closed = False\<rparr>,
          fresh_portal)
   \<and> json_read sample_env (post_request ''8'') (incoming body_malformed)
       = (Inr (PDict []), incoming [])
   \<and> wifi_add sample_env (post_request ''8'') (incoming body_malformed, fresh_portal)
       = (Inr None,
          \<lparr>conn_in = [],
           conn_out = [''HTTP/1.1 400 Bad Request'' @ crlf,
                       ''Content-Type: application/json'' @ crlf @ crlf,
                       ''{\"error\": \"both ssid and password must be provided\"}''],
           conn_closed = False\<rparr>,
          fresh_portal)"
proof -
  have lib: "json_loads sample_env ''{}'' = Inr (PDict [])"
    by (simp add: sample_env_def loads_examples_def)
  have absent: "map_of (req_headers bare_request) ''Content-Length'' = None
                \<and> json_loads sample_env [] = Inl ValueError"
    by (simp add: bare_request_def sample_env_def loads_examples_def body_ssid_only_def
        body_both_def)
  have rd: "reader_read 8 (incoming body_malformed) = (body_malformed, incoming [])"
    by (simp add: reader_read_def incoming_def body_malformed_def)
  have malformed: "map_of (req_headers (post_request ''8'')) ''Content-Length'' = Some ''8''
                   \<and> py_int ''8'' = Inr 8
                   \<and> json_loads sample_env (fst (reader_read 8 (incoming body_malformed)))
                       = Inl ValueError"
    unfolding rd
    by (simp add: post_request_def py_int_def strip_def is_space_def int_unsigned_def
        is_digit_def digit_value_def sample_env_def loads_examples_def body_ssid_only_def
        body_both_def body_malformed_def)
  note a = json_read_falls_back [OF lib, of bare_request ValueError "incoming []" fresh_portal,
      THEN conjunct1, THEN mp, OF absent]
  note b = json_read_falls_back [OF lib, of "post_request ''8''" ValueError
      "incoming body_malformed" fresh_portal "''8''" 8, THEN conjunct2, THEN mp, OF malformed]
  show ?thesis
    using a b unfolding rd
    by (simp add: incoming_def sample_env_def)
qed

text \<open>
  C10 as stated fails for a request whose \<open>Content-Length\<close> is not an integer:
  \<open>POST /wifi/add\<close> with the header \<open>Content-Length: abc\<close> and no body. \<open>int\<close> raises
  \<open>ValueError\<close> in \<open>read\<close>, outside every \<open>try\<close> of \<open>read\<close> and \<open>json_read\<close>;
  \<open>json_read\<close> raises, and the portal answers with the 500 of an internal error.
\<close>

theorem bad_content_length_is_500:
  "json_read sample_env (post_request ''abc'') (incoming []) = (Inl ValueError, incoming [])
   \<and> handle sample_env (portal_routes sample_env)
       (incoming (''POST /wifi/add HTTP/1.1'' @ crlf @ ''Content-Length: abc'' @ crlf @ crlf),
        fresh_portal)
     = Some (None,
             \<lparr>conn_in = [],
              conn_out = [''HTTP/1.1 500 Internal Server Error'' @ crlf,
                          ''Content-Type: application/json'' @ crlf @ crlf,
                          ''{\"error\": \"Internal Server Error\"}''],
              conn_closed = True\<rparr>,
             fresh_portal)"
proof -
  have bad: "py_int ''abc'' = Inl ValueError"
    by (simp add: py_int_def strip_def is_space_def int_unsigned_def is_digit_def)
  have a: "json_read sample_env (post_request ''abc'') (incoming []) = (Inl ValueError, incoming [])"
    by (simp add: json_read_def read_def post_request_def bad)
  have b: "handle sample_env (portal_routes sample_env)
       (incoming (''POST /wifi/add HTTP/1.1'' @ crlf @ ''Content-Length: abc'' @ crlf @ crlf),
        fresh_portal)
     = Some (None,
             \<lparr>conn_in = [],
              conn_out = [''HTTP/1.1 500 Internal Server Error'' @ crlf,
                          ''Content-Type: application/json'' @ crlf @ crlf,
                          ''{\"error\": \"Internal Server Error\"}''],
              conn_closed = True\<rparr>,
             fresh_portal)"
    by (simp add: handle_def incoming_def readline_def crlf_def decode_ascii_def split_ws_def
        is_space_def serve_def read_headers.simps extract_headers_def strip_def
        route_request_def portal_routes_def generate_output.simps wifi_add_def
        wifi_add_body_def json_read_def read_def py_int_def int_unsigned_def is_digit_def
        guarded_def json_error_def awrite_def aclose_def str_nat_codes sample_env_def)
  show ?thesis using a b by simp
qed

end
